theory Spec2Isabelle
  imports Complex_Main
begin

section \<open>Data model of the score-import framework\<close>

text \<open>
  The types of \<^verbatim>\<open>kamaitachi-common\<close> are strings at run time: a game
  (\<^verbatim>\<open>"iidx"\<close>), a playtype (\<^verbatim>\<open>"SP"\<close>), an import type and every identifier.
\<close>

type_synonym Game = string
type_synonym Playtype = string
type_synonym ImportTypes = string

text \<open>
  A score document. Only the three fields that \<^verbatim>\<open>score-import-main.ts\<close> reads are
  named; every other field of the document lives in the record's extension slot, so the
  functions below work on any \<open>'a ScoreDocument_scheme\<close>.
\<close>

record ScoreDocument =
  scoreID :: string
  chartID :: string
  playtype :: Playtype

text \<open>
  \<^verbatim>\<open>ImportProcessingInfo\<close> is a union discriminated by its \<^verbatim>\<open>success\<close> field:
  \<^verbatim>\<open>{success: true, content: {score}}\<close> or \<^verbatim>\<open>{success: false, type, message}\<close>.
\<close>

datatype 'a ImportProcessingInfo =
  Success "'a ScoreDocument_scheme"
| Failure string string

text \<open>The object literal \<^verbatim>\<open>{ type: info.type, message: info.message }\<close>.\<close>

record ImportError =
  type :: string
  message :: string

text \<open>
  The acting user; \<^verbatim>\<open>user.id\<close> is the only field read. (\<open>id\<close> is HOL's identity
  function, hence the prime.)
\<close>

record PublicUserDocument =
  id' :: int

text \<open>
  The import document. Sessions, class deltas, goal and milestone information are made by
  other modules and only passed through, so their types are parameters.
\<close>

record ('s, 'k, 'g, 'm) ImportDocument =
  importType :: ImportTypes
  idStrings :: "string list"
  scoreIDs :: "string list"
  errors :: "ImportError list"
  importID :: string
  timeFinished :: int
  timeStarted :: int
  createdSessions :: "'s list"
  userID :: int
  classDeltas :: "'k list"
  goalInfo :: 'g
  milestoneInfo :: 'm
  userIntent :: bool

subsection \<open>JavaScript containers\<close>

text \<open>
  \<^verbatim>\<open>scorePlaytypeMap\<close> is an object made by \<^verbatim>\<open>Object.create(null)\<close>: it has no
  inherited property, and its own string keys are kept in the order of their first
  assignment. It is an association list with one entry per key. (Keys that spell an array
  index would be listed first by \<^verbatim>\<open>Object.keys\<close>; no playtype is one.)
\<close>

type_synonym 'a ScorePlaytypeMap = "(Playtype \<times> 'a ScoreDocument_scheme list) list"

definition obj_get :: "('k \<times> 'v) list \<Rightarrow> 'k \<Rightarrow> 'v option" where
  "obj_get obj k = map_of obj k"

fun obj_set :: "('k \<times> 'v) list \<Rightarrow> 'k \<Rightarrow> 'v \<Rightarrow> ('k \<times> 'v) list" where
  "obj_set [] k v = [(k, v)]"
| "obj_set ((k', v') # obj) k v =
     (if k' = k then (k', v) # obj else (k', v') # obj_set obj k v)"

definition Object_keys :: "('k \<times> 'v) list \<Rightarrow> 'k list" where
  "Object_keys obj = map fst obj"

text \<open>
  A \<^verbatim>\<open>Set<string>\<close> keeps its elements in insertion order; \<^verbatim>\<open>add\<close> of an element
  that is already there changes nothing, and \<^verbatim>\<open>size\<close> is the number of elements.
\<close>

type_synonym 'a JSSet = "'a list"

definition Set_add :: "'a JSSet \<Rightarrow> 'a \<Rightarrow> 'a JSSet" where
  "Set_add s x = (if x \<in> set s then s else s @ [x])"

definition Set_size :: "'a JSSet \<Rightarrow> nat" where
  "Set_size s = length s"

subsection \<open>ParseImportInfo\<close>

record 'a ParsedImportInfo =
  scoreIDs :: "string list"
  errors :: "ImportError list"
  scorePlaytypeMap :: "'a ScorePlaytypeMap"
  chartIDs :: "string JSSet"

text \<open>
  One turn of \<^verbatim>\<open>for (const info of importInfo)\<close>. The test
  \<^verbatim>\<open>if (scorePlaytypeMap[playtype])\<close> is a truthiness test; the value is either
  \<^verbatim>\<open>undefined\<close> or an array, and every array is truthy (the empty one too).
\<close>

definition ParseImportInfo_step ::
  "'a ParsedImportInfo \<Rightarrow> 'a ImportProcessingInfo \<Rightarrow> 'a ParsedImportInfo" where
  "ParseImportInfo_step acc info =
     (case info of
        Success score \<Rightarrow>
          acc\<lparr>scoreIDs := scoreIDs acc @ [scoreID score],
              chartIDs := Set_add (chartIDs acc) (chartID score),
              scorePlaytypeMap :=
                (case obj_get (scorePlaytypeMap acc) (playtype score) of
                   Some scores \<Rightarrow>
                     obj_set (scorePlaytypeMap acc) (playtype score) (scores @ [score])
                 | None \<Rightarrow>
                     obj_set (scorePlaytypeMap acc) (playtype score) [score])\<rparr>
      | Failure t m \<Rightarrow>
          acc\<lparr>errors := errors acc @ [\<lparr>type = t, message = m\<rparr>]\<rparr>)"

definition ParseImportInfo :: "'a ImportProcessingInfo list \<Rightarrow> 'a ParsedImportInfo" where
  "ParseImportInfo importInfo =
     foldl ParseImportInfo_step
       \<lparr>scoreIDs = [], errors = [], scorePlaytypeMap = [], chartIDs = []\<rparr>
       importInfo"

subsection \<open>Numbers, clocks and the logger\<close>

text \<open>
  A JavaScript number as far as this file computes with one: the millisecond readings of
  \<^verbatim>\<open>GetMilisecondsSince\<close> and their quotients by a count. Division never throws:
  a zero divisor gives \<^verbatim>\<open>NaN\<close> or an infinity. Rounding is not modelled. \<open>js_div\<close> is
  \<^verbatim>\<open>x / n\<close> for \<open>n\<close> an array length or a set size, a non-negative integer.
\<close>

datatype jsnumber = Num rat | PosInfinity | NegInfinity | NaN

fun js_div :: "jsnumber \<Rightarrow> nat \<Rightarrow> jsnumber" where
  "js_div (Num a) n =
     (if n = 0 then (if a = 0 then NaN else if 0 < a then PosInfinity else NegInfinity)
      else Num (a / of_nat n))"
| "js_div PosInfinity n = PosInfinity"
| "js_div NegInfinity n = NegInfinity"
| "js_div NaN n = NaN"

text \<open>
  What one run reads from the clocks: the three results of \<^verbatim>\<open>Date.now()\<close> (integer
  epoch milliseconds) and the eight results of \<^verbatim>\<open>GetMilisecondsSince\<close>, in the
  order of the reads. They are inputs of the model.
\<close>

record Clock =
  now_timeStarted :: int
  since_parse :: jsnumber
  since_import :: jsnumber
  since_importParse :: jsnumber
  since_session :: jsnumber
  since_pb :: jsnumber
  since_ugs :: jsnumber
  since_goal :: jsnumber
  since_milestone :: jsnumber
  now_timeFinished :: int
  now_timestamp :: int

text \<open>
  The logger's three methods used here, and the messages, one constructor per template
  string with the values that are interpolated into it.
\<close>

datatype LogLevel = info | verbose | debug

datatype LogMessage =
  Received_import_request
| Parsing_took jsnumber
| Importing_took jsnumber jsnumber
| Import_Parsing_took jsnumber jsnumber
| Session_Processing_took jsnumber jsnumber
| PB_Processing_took jsnumber jsnumber
| UGS_Processing_took jsnumber
| Goal_Processing_took jsnumber
| Milestone_Processing_took jsnumber
| Import_took int nat nat nat nat jsnumber

text \<open>The document written to \<^verbatim>\<open>db["import-timings"]\<close>.\<close>

record TimingsRel =
  rel_import :: jsnumber
  rel_importParse :: jsnumber
  rel_pb :: jsnumber
  rel_session :: jsnumber

record TimingsAbs =
  abs_parse :: jsnumber
  abs_import :: jsnumber
  abs_importParse :: jsnumber
  abs_session :: jsnumber
  abs_pb :: jsnumber
  abs_ugs :: jsnumber
  abs_goal :: jsnumber
  abs_milestone :: jsnumber

record ImportTimings =
  timings_importID :: string
  timestamp :: int
  total :: int
  rel :: TimingsRel
  abs_timings :: TimingsAbs

subsection \<open>The world the orchestrator acts on\<close>

text \<open>
  A value thrown by, or the rejection reason of, a call into another module.
\<close>

datatype error = Error string

text \<open>The calls into other modules and into the database, as a run makes them.\<close>

datatype Call =
  Call_InputParser
| Call_ImportAllIterableData
| Call_CreateSessions
| Call_ProcessPBs
| Call_UpdateUsersGamePlaytypeStats Playtype
| Call_UpdateUsersGoals
| Call_UpdateUsersMilestones
| Call_db_imports_insert
| Call_db_import_timings_insert

text \<open>
  The state: the two collections this file writes, the lines it logs, and the trace of
  the calls it starts. What the other modules write elsewhere is not part of it.
\<close>

record ('s, 'k, 'g, 'm) World =
  db_imports :: "('s, 'k, 'g, 'm) ImportDocument list"
  db_import_timings :: "ImportTimings list"
  logged :: "(LogLevel \<times> LogMessage) list"
  calls :: "Call list"

text \<open>
  The modules imported by \<^verbatim>\<open>score-import-main.ts\<close>, taken as parameters: their
  code lies outside the file verified. A field gives the outcome of the call in this run as a
  function of the data passed (the logger argument is left out): \<open>Inl\<close> when the call
  throws or its promise rejects, \<open>Inr\<close> with the value otherwise.
\<close>

record ('d, 'f, 'c) ParserOutput =
  iterable :: 'd
  ConverterFunction :: 'f
  context' :: 'c
  game :: Game

record ('d, 'f, 'c, 'a, 's, 'k, 'g, 'm) Modules =
  CreateImportLoggerAndID :: "PublicUserDocument \<Rightarrow> ImportTypes \<Rightarrow> string"
  ImportAllIterableData ::
    "int \<Rightarrow> 'd \<Rightarrow> 'f \<Rightarrow> 'c \<Rightarrow> error + 'a ImportProcessingInfo list"
  CreateSessions ::
    "int \<Rightarrow> ImportTypes \<Rightarrow> Game \<Rightarrow> 'a ScorePlaytypeMap \<Rightarrow> error + 's list"
  ProcessPBs :: "int \<Rightarrow> string JSSet \<Rightarrow> error + unit"
  UpdateUsersGamePlaytypeStats :: "Game \<Rightarrow> Playtype \<Rightarrow> int \<Rightarrow> error + 'k list"
  UpdateUsersGoals :: "Game \<Rightarrow> int \<Rightarrow> string JSSet \<Rightarrow> error + 'g"
  UpdateUsersMilestones :: "'g \<Rightarrow> Game \<Rightarrow> Playtype list \<Rightarrow> int \<Rightarrow> error + 'm"
  db_imports_insert :: "('s, 'k, 'g, 'm) ImportDocument \<Rightarrow> error + unit"
  db_import_timings_insert :: "ImportTimings \<Rightarrow> error + unit"

text \<open>
  An asynchronous computation: from a world to an outcome and the world it leaves.
  \<open>await\<close> of a rejected promise throws, which ends the enclosing \<^verbatim>\<open>async\<close>
  function with that rejection: \<open>bind_io\<close> passes an \<open>Inl\<close> on and skips the rest.
\<close>

type_synonym ('x, 'w) io = "'w \<Rightarrow> (error + 'x) \<times> 'w"

definition return_io :: "'x \<Rightarrow> ('x, 'w) io" where
  "return_io x w = (Inr x, w)"

definition bind_io :: "('x, 'w) io \<Rightarrow> ('x \<Rightarrow> ('y, 'w) io) \<Rightarrow> ('y, 'w) io" where
  "bind_io m f w = (case m w of (Inl e, w') \<Rightarrow> (Inl e, w') | (Inr x, w') \<Rightarrow> f x w')"

definition call ::
  "Call \<Rightarrow> error + 'x \<Rightarrow> ('s, 'k, 'g, 'm) World \<Rightarrow> (error + 'x) \<times> ('s, 'k, 'g, 'm) World" where
  "call c outcome w = (outcome, w\<lparr>calls := calls w @ [c]\<rparr>)"

definition logger_info :: "LogMessage \<Rightarrow> (unit, ('s, 'k, 'g, 'm) World) io" where
  "logger_info msg w = (Inr (), w\<lparr>logged := logged w @ [(info, msg)]\<rparr>)"

definition logger_verbose :: "LogMessage \<Rightarrow> (unit, ('s, 'k, 'g, 'm) World) io" where
  "logger_verbose msg w = (Inr (), w\<lparr>logged := logged w @ [(verbose, msg)]\<rparr>)"

definition logger_debug :: "LogMessage \<Rightarrow> (unit, ('s, 'k, 'g, 'm) World) io" where
  "logger_debug msg w = (Inr (), w\<lparr>logged := logged w @ [(debug, msg)]\<rparr>)"

text \<open>
  \<^verbatim>\<open>await db.imports.insert(doc)\<close>: the document is in the collection when the insert
  succeeds. \<^verbatim>\<open>db["import-timings"].insert(t)\<close> is started and not awaited: its
  outcome reaches nobody.
\<close>

definition await_db_imports_insert ::
  "('d, 'f, 'c, 'a, 's, 'k, 'g, 'm) Modules \<Rightarrow> ('s, 'k, 'g, 'm) ImportDocument \<Rightarrow>
   (unit, ('s, 'k, 'g, 'm) World) io" where
  "await_db_imports_insert M doc w =
     (case db_imports_insert M doc of
        Inl e \<Rightarrow> (Inl e, w\<lparr>calls := calls w @ [Call_db_imports_insert]\<rparr>)
      | Inr u \<Rightarrow> (Inr (), w\<lparr>db_imports := db_imports w @ [doc],
                              calls := calls w @ [Call_db_imports_insert]\<rparr>))"

definition start_db_import_timings_insert ::
  "('d, 'f, 'c, 'a, 's, 'k, 'g, 'm) Modules \<Rightarrow> ImportTimings \<Rightarrow>
   (unit, ('s, 'k, 'g, 'm) World) io" where
  "start_db_import_timings_insert M t w =
     (case db_import_timings_insert M t of
        Inl e \<Rightarrow> (Inr (), w\<lparr>calls := calls w @ [Call_db_import_timings_insert]\<rparr>)
      | Inr u \<Rightarrow> (Inr (), w\<lparr>db_import_timings := db_import_timings w @ [t],
                              calls := calls w @ [Call_db_import_timings_insert]\<rparr>))"

subsection \<open>UpdateUsersGameStats\<close>

text \<open>
  The \<^verbatim>\<open>for\<close> loop starts one call per element of \<^verbatim>\<open>playtypes\<close>, in order, and
  collects the promises; no call waits for another. The callee is asynchronous: its
  failure is a rejected promise in the array, and the loop goes on. The arguments
  \<^verbatim>\<open>null\<close> and \<^verbatim>\<open>logger\<close> are the same in every call and left out.
\<close>

fun push_promises ::
  "('d, 'f, 'c, 'a, 's, 'k, 'g, 'm) Modules \<Rightarrow> Game \<Rightarrow> Playtype list \<Rightarrow> int \<Rightarrow>
   ('s, 'k, 'g, 'm) World \<Rightarrow> (error + 'k list) list \<times> ('s, 'k, 'g, 'm) World" where
  "push_promises M g [] uid w = ([], w)"
| "push_promises M g (pt # pts) uid w =
     (let (p, w1) = call (Call_UpdateUsersGamePlaytypeStats pt)
                      (UpdateUsersGamePlaytypeStats M g pt uid) w;
          (ps, w2) = push_promises M g pts uid w1
      in (p # ps, w2))"

text \<open>
  \<^verbatim>\<open>Promise.all\<close>: the array of the values when every promise fulfils, a rejection
  when one rejects. JavaScript rejects with the reason of the promise that rejects first
  in time; the model takes the first in array order.
\<close>

fun Promise_all :: "(error + 'x) list \<Rightarrow> error + 'x list" where
  "Promise_all [] = Inr []"
| "Promise_all (Inl e # ps) = Inl e"
| "Promise_all (Inr v # ps) =
     (case Promise_all ps of Inl e \<Rightarrow> Inl e | Inr vs \<Rightarrow> Inr (v # vs))"

definition UpdateUsersGameStats ::
  "('d, 'f, 'c, 'a, 's, 'k, 'g, 'm) Modules \<Rightarrow> Game \<Rightarrow> Playtype list \<Rightarrow> int \<Rightarrow>
   ('k list, ('s, 'k, 'g, 'm) World) io" where
  "UpdateUsersGameStats M g playtypes uid w =
     (let (promises, w') = push_promises M g playtypes uid w
      in case Promise_all promises of
           Inl e \<Rightarrow> (Inl e, w')
         | Inr r \<Rightarrow> (Inr (concat r), w'))"

subsection \<open>ScoreImportMain\<close>

text \<open>The three-way choice of the logger method for the closing message.\<close>

definition log_import_took ::
  "nat \<Rightarrow> LogMessage \<Rightarrow> (unit, ('s, 'k, 'g, 'm) World) io" where
  "log_import_took n logMessage =
     (if n > 500 then logger_info logMessage
      else if n > 1 then logger_verbose logMessage
      else logger_debug logMessage)"

definition ScoreImportMain ::
  "('d, 'f, 'c, 'a, 's, 'k, 'g, 'm) Modules \<Rightarrow> Clock \<Rightarrow>
   PublicUserDocument \<Rightarrow> bool \<Rightarrow> ImportTypes \<Rightarrow> (error + ('d, 'f, 'c) ParserOutput) \<Rightarrow>
   (('s, 'k, 'g, 'm) ImportDocument, ('s, 'k, 'g, 'm) World) io" where
  "ScoreImportMain M clock user userIntent' importType' InputParser =
    (let timeStarted' = now_timeStarted clock;
         importID' = CreateImportLoggerAndID M user importType' in
     bind_io (logger_debug Received_import_request) (\<lambda>_.
     bind_io (call Call_InputParser InputParser) (\<lambda>parsed.
     let parseTime = since_parse clock in
     bind_io (logger_debug (Parsing_took parseTime)) (\<lambda>_.
     bind_io (call Call_ImportAllIterableData
                (ImportAllIterableData M (id' user) (iterable parsed)
                   (ConverterFunction parsed) (context' parsed))) (\<lambda>importInfo.
     let importTime = since_import clock;
         importTimeRel = js_div importTime (length importInfo) in
     bind_io (logger_debug (Importing_took importTime importTimeRel)) (\<lambda>_.
     let parsedInfo = ParseImportInfo importInfo;
         importParseTime = since_importParse clock;
         importParseTimeRel = js_div importParseTime (length importInfo) in
     bind_io (logger_debug (Import_Parsing_took importParseTime importParseTimeRel)) (\<lambda>_.
     bind_io (call Call_CreateSessions
                (CreateSessions M (id' user) importType' (game parsed)
                   (scorePlaytypeMap parsedInfo))) (\<lambda>sessionInfo.
     let sessionTime = since_session clock;
         sessionTimeRel = js_div sessionTime (length sessionInfo) in
     bind_io (logger_debug (Session_Processing_took sessionTime sessionTimeRel)) (\<lambda>_.
     bind_io (call Call_ProcessPBs
                (ProcessPBs M (id' user) (chartIDs parsedInfo))) (\<lambda>_.
     let pbTime = since_pb clock;
         pbTimeRel = js_div pbTime (Set_size (chartIDs parsedInfo)) in
     bind_io (logger_debug (PB_Processing_took pbTime pbTimeRel)) (\<lambda>_.
     let playtypes = Object_keys (scorePlaytypeMap parsedInfo) in
     bind_io (UpdateUsersGameStats M (game parsed) playtypes (id' user)) (\<lambda>classDeltas'.
     let ugsTime = since_ugs clock in
     bind_io (logger_debug (UGS_Processing_took ugsTime)) (\<lambda>_.
     bind_io (call Call_UpdateUsersGoals
                (UpdateUsersGoals M (game parsed) (id' user) (chartIDs parsedInfo)))
             (\<lambda>goalInfo'.
     let goalTime = since_goal clock in
     bind_io (logger_debug (Goal_Processing_took goalTime)) (\<lambda>_.
     bind_io (call Call_UpdateUsersMilestones
                (UpdateUsersMilestones M goalInfo' (game parsed) playtypes (id' user)))
             (\<lambda>milestoneInfo'.
     let milestoneTime = since_milestone clock in
     bind_io (logger_debug (Milestone_Processing_took milestoneTime)) (\<lambda>_.
     let doc = \<lparr>importType = importType',
                idStrings = map (\<lambda>e. game parsed @ '':'' @ e) playtypes,
                ImportDocument.scoreIDs = scoreIDs parsedInfo,
                ImportDocument.errors = errors parsedInfo,
                importID = importID',
                timeFinished = now_timeFinished clock,
                timeStarted = timeStarted',
                createdSessions = sessionInfo,
                userID = id' user,
                classDeltas = classDeltas',
                goalInfo = goalInfo',
                milestoneInfo = milestoneInfo',
                userIntent = userIntent'\<rparr>;
         logMessage =
           Import_took (timeFinished doc - timeStarted') (length importInfo)
             (length (errors parsedInfo)) (length (scoreIDs parsedInfo))
             (length sessionInfo)
             (js_div (Num (of_int (timeFinished doc - timeStarted'))) (length importInfo)) in
     bind_io (log_import_took (length (scoreIDs parsedInfo)) logMessage) (\<lambda>_.
     bind_io (await_db_imports_insert M doc) (\<lambda>_.
     bind_io (start_db_import_timings_insert M
                \<lparr>timings_importID = importID',
                 timestamp = now_timestamp clock,
                 total = timeFinished doc - timeStarted',
                 rel = \<lparr>rel_import = importTimeRel,
                        rel_importParse = importParseTimeRel,
                        rel_pb = pbTimeRel,
                        rel_session = sessionTimeRel\<rparr>,
                 abs_timings = \<lparr>abs_parse = parseTime,
                                abs_import = importTime,
                                abs_importParse = importParseTime,
                                abs_session = sessionTime,
                                abs_pb = pbTime,
                                abs_ugs = ugsTime,
                                abs_goal = goalTime,
                                abs_milestone = milestoneTime\<rparr>\<rparr>) (\<lambda>_.
     return_io doc))))))))))))))))))))"

subsection \<open>Vocabulary of the specification\<close>

text \<open>The accepted scores of a batch, and its failures, each in input order.\<close>

fun accepted :: "'a ImportProcessingInfo list \<Rightarrow> 'a ScoreDocument_scheme list" where
  "accepted [] = []"
| "accepted (Success score # infos) = score # accepted infos"
| "accepted (Failure t m # infos) = accepted infos"

fun failures :: "'a ImportProcessingInfo list \<Rightarrow> ImportError list" where
  "failures [] = []"
| "failures (Success score # infos) = failures infos"
| "failures (Failure t m # infos) = \<lparr>type = t, message = m\<rparr> # failures infos"

text \<open>The group stored under a playtype; a playtype that is no key has no scores.\<close>

definition group_of :: "('k \<times> 'v list) list \<Rightarrow> 'k \<Rightarrow> 'v list" where
  "group_of obj k = (case obj_get obj k of None \<Rightarrow> [] | Some scores \<Rightarrow> scores)"

text \<open>
  The severity the specification gives to the closing log line, by the number of accepted
  scores: high above 500, medium from 2 to 500, low for 1 or 0. The logger's levels in
  that order are \<open>info\<close>, \<open>verbose\<close> and \<open>debug\<close>.
\<close>

definition severity_for :: "nat \<Rightarrow> LogLevel" where
  "severity_for n =
     (if 500 < n then info else if 2 \<le> n \<and> n \<le> 500 then verbose else debug)"

text \<open>
  \<^verbatim>\<open>x >= 0\<close> as JavaScript evaluates it on a number: true of \<^verbatim>\<open>Infinity\<close>, false
  of \<^verbatim>\<open>NaN\<close>. \<open>readings_ge0\<close> says it of the eight readings of
  \<^verbatim>\<open>GetMilisecondsSince\<close> in a run.
\<close>

fun js_ge0 :: "jsnumber \<Rightarrow> bool" where
  "js_ge0 (Num a) = (0 \<le> a)"
| "js_ge0 PosInfinity = True"
| "js_ge0 NegInfinity = False"
| "js_ge0 NaN = False"

definition readings_ge0 :: "Clock \<Rightarrow> bool" where
  "readings_ge0 clock =
     (js_ge0 (since_parse clock) \<and> js_ge0 (since_import clock) \<and>
      js_ge0 (since_importParse clock) \<and> js_ge0 (since_session clock) \<and>
      js_ge0 (since_pb clock) \<and> js_ge0 (since_ugs clock) \<and>
      js_ge0 (since_goal clock) \<and> js_ge0 (since_milestone clock))"

subsection \<open>A sample environment\<close>

text \<open>
  Concrete modules to run the orchestrator on: the raw records are the outcomes
  themselves, one session is made per playtype group, and a call rejects exactly when it
  is listed in \<open>failing\<close>, every one with the same reason.
\<close>

definition sample_modules ::
  "Call list \<Rightarrow>
   (unit ImportProcessingInfo list, unit, unit, unit, string, string, string, string) Modules"
  where
  "sample_modules failing =
     \<lparr>CreateImportLoggerAndID = (\<lambda>u t. ''import-1''),
      ImportAllIterableData = (\<lambda>uid d f c.
        if Call_ImportAllIterableData \<in> set failing
        then Inl (Error ''connection lost'') else Inr d),
      CreateSessions = (\<lambda>uid t g m.
        if Call_CreateSessions \<in> set failing
        then Inl (Error ''connection lost'') else Inr (map (\<lambda>kv. ''session-'' @ fst kv) m)),
      ProcessPBs = (\<lambda>uid cs.
        if Call_ProcessPBs \<in> set failing then Inl (Error ''connection lost'') else Inr ()),
      UpdateUsersGamePlaytypeStats = (\<lambda>g pt uid.
        if Call_UpdateUsersGamePlaytypeStats pt \<in> set failing
        then Inl (Error ''connection lost'') else Inr [''class-'' @ pt]),
      UpdateUsersGoals = (\<lambda>g uid cs.
        if Call_UpdateUsersGoals \<in> set failing
        then Inl (Error ''connection lost'') else Inr ''goals''),
      UpdateUsersMilestones = (\<lambda>gi g pts uid.
        if Call_UpdateUsersMilestones \<in> set failing
        then Inl (Error ''connection lost'') else Inr ''milestones''),
      db_imports_insert = (\<lambda>doc.
        if Call_db_imports_insert \<in> set failing
        then Inl (Error ''connection lost'') else Inr ()),
      db_import_timings_insert = (\<lambda>t.
        if Call_db_import_timings_insert \<in> set failing
        then Inl (Error ''connection lost'') else Inr ())\<rparr>"

definition sample_parser ::
  "unit ImportProcessingInfo list \<Rightarrow>
   error + (unit ImportProcessingInfo list, unit, unit) ParserOutput" where
  "sample_parser d =
     Inr \<lparr>iterable = d, ConverterFunction = (), context' = (), game = ''iidx''\<rparr>"

definition sample_clock :: Clock where
  "sample_clock =
     \<lparr>now_timeStarted = 1000, since_parse = Num 2, since_import = Num 30,
      since_importParse = Num 1, since_session = Num 12, since_pb = Num 8,
      since_ugs = Num 5, since_goal = Num 4, since_milestone = Num 3,
      now_timeFinished = 1070, now_timestamp = 1071\<rparr>"

definition sample_user :: PublicUserDocument where
  "sample_user = \<lparr>id' = 1\<rparr>"

definition empty_world :: "(string, string, string, string) World" where
  "empty_world = \<lparr>db_imports = [], db_import_timings = [], logged = [], calls = []\<rparr>"

section \<open>The outcome partitioner\<close>

subsection \<open>The containers\<close>

lemma set_Set_add: "set (Set_add s x) = insert x (set s)"
  by (auto simp: Set_add_def)

lemma distinct_Set_add: "distinct s \<Longrightarrow> distinct (Set_add s x)"
  by (auto simp: Set_add_def)

lemma count_list_distinct:
  "distinct xs \<Longrightarrow> count_list xs x = (if x \<in> set xs then 1 else 0)"
  by (induction xs) auto

lemma obj_get_obj_set:
  "obj_get (obj_set obj k v) k' = (if k' = k then Some v else obj_get obj k')"
  by (induction obj) (auto simp: obj_get_def)

lemma keys_obj_set:
  "Object_keys (obj_set obj k v) =
     (if k \<in> set (Object_keys obj) then Object_keys obj else Object_keys obj @ [k])"
  by (induction obj) (force simp: Object_keys_def)+

lemma obj_get_None_iff: "obj_get obj k = None \<longleftrightarrow> k \<notin> set (Object_keys obj)"
  by (simp add: obj_get_def Object_keys_def map_of_eq_None_iff)

lemma group_of_obj_set:
  "group_of (obj_set obj k v) k' = (if k' = k then v else group_of obj k')"
  by (simp add: group_of_def obj_get_obj_set)

subsection \<open>The loop, from any accumulator\<close>

lemma map_step_Success:
  "scorePlaytypeMap (ParseImportInfo_step acc (Success score)) =
     obj_set (scorePlaytypeMap acc) (playtype score)
       (group_of (scorePlaytypeMap acc) (playtype score) @ [score])"
  by (simp add: ParseImportInfo_step_def group_of_def split: option.splits)

lemma map_step_Failure:
  "scorePlaytypeMap (ParseImportInfo_step acc (Failure t m)) = scorePlaytypeMap acc"
  by (simp add: ParseImportInfo_step_def)

lemma loop_scoreIDs:
  "scoreIDs (foldl ParseImportInfo_step acc xs) = scoreIDs acc @ map scoreID (accepted xs)"
  by (induction xs arbitrary: acc rule: accepted.induct)
     (simp_all add: ParseImportInfo_step_def)

lemma loop_errors:
  "errors (foldl ParseImportInfo_step acc xs) = errors acc @ failures xs"
  by (induction xs arbitrary: acc rule: accepted.induct)
     (simp_all add: ParseImportInfo_step_def)

lemma length_accepted_failures:
  "length (accepted xs) + length (failures xs) = length xs"
  by (induction xs rule: accepted.induct) simp_all

lemma loop_chartIDs_set:
  "set (chartIDs (foldl ParseImportInfo_step acc xs)) =
     set (chartIDs acc) \<union> chartID ` set (accepted xs)"
  by (induction xs arbitrary: acc rule: accepted.induct)
     (simp_all add: ParseImportInfo_step_def set_Set_add)

lemma loop_chartIDs_distinct:
  "distinct (chartIDs acc) \<Longrightarrow> distinct (chartIDs (foldl ParseImportInfo_step acc xs))"
  by (induction xs arbitrary: acc rule: accepted.induct)
     (simp_all add: ParseImportInfo_step_def distinct_Set_add)

lemma loop_group:
  "group_of (scorePlaytypeMap (foldl ParseImportInfo_step acc xs)) pt =
     group_of (scorePlaytypeMap acc) pt @ filter (\<lambda>s. playtype s = pt) (accepted xs)"
  by (induction xs arbitrary: acc rule: accepted.induct)
     (simp_all add: map_step_Success map_step_Failure group_of_obj_set)

lemma loop_keys_set:
  "set (Object_keys (scorePlaytypeMap (foldl ParseImportInfo_step acc xs))) =
     set (Object_keys (scorePlaytypeMap acc)) \<union> playtype ` set (accepted xs)"
  by (induction xs arbitrary: acc rule: accepted.induct)
     (auto simp add: map_step_Success map_step_Failure keys_obj_set)

lemma loop_keys_distinct:
  "distinct (Object_keys (scorePlaytypeMap acc)) \<Longrightarrow>
   distinct (Object_keys (scorePlaytypeMap (foldl ParseImportInfo_step acc xs)))"
  by (induction xs arbitrary: acc rule: accepted.induct)
     (auto simp add: map_step_Success map_step_Failure keys_obj_set)

subsection \<open>ParseImportInfo on a whole batch\<close>

lemma ParseImportInfo_scoreIDs:
  "scoreIDs (ParseImportInfo xs) = map scoreID (accepted xs)"
  by (simp add: ParseImportInfo_def loop_scoreIDs)

lemma ParseImportInfo_errors: "errors (ParseImportInfo xs) = failures xs"
  by (simp add: ParseImportInfo_def loop_errors)

lemma ParseImportInfo_keys_set:
  "set (Object_keys (scorePlaytypeMap (ParseImportInfo xs))) = playtype ` set (accepted xs)"
  unfolding ParseImportInfo_def loop_keys_set by (simp add: Object_keys_def)

lemma ParseImportInfo_keys_distinct:
  "distinct (Object_keys (scorePlaytypeMap (ParseImportInfo xs)))"
  unfolding ParseImportInfo_def by (rule loop_keys_distinct) (simp add: Object_keys_def)

lemma ParseImportInfo_group:
  "group_of (scorePlaytypeMap (ParseImportInfo xs)) pt =
     filter (\<lambda>s. playtype s = pt) (accepted xs)"
  unfolding ParseImportInfo_def loop_group by (simp add: group_of_def obj_get_def)

lemma filter_playtype_Nil_iff:
  "filter (\<lambda>s. playtype s = pt) scores = [] \<longleftrightarrow> pt \<notin> playtype ` set scores"
  by (auto simp: filter_empty_conv)

lemma ParseImportInfo_obj_get:
  "obj_get (scorePlaytypeMap (ParseImportInfo xs)) pt =
     (if pt \<in> playtype ` set (accepted xs)
      then Some (filter (\<lambda>s. playtype s = pt) (accepted xs)) else None)"
proof (cases "obj_get (scorePlaytypeMap (ParseImportInfo xs)) pt")
  case None
  then show ?thesis
    by (simp add: obj_get_None_iff ParseImportInfo_keys_set)
next
  case (Some scores)
  then have key: "pt \<in> playtype ` set (accepted xs)"
    using obj_get_None_iff [of "scorePlaytypeMap (ParseImportInfo xs)" pt]
    by (simp add: ParseImportInfo_keys_set)
  from Some have "group_of (scorePlaytypeMap (ParseImportInfo xs)) pt = scores"
    by (simp add: group_of_def)
  then have "scores = filter (\<lambda>s. playtype s = pt) (accepted xs)"
    by (simp add: ParseImportInfo_group)
  with Some key show ?thesis by simp
qed

text \<open>
  C1. Whatever the sequence of conversion outcomes, the accepted score IDs and the
  failures together are as many as the outcomes: every outcome adds one entry to exactly
  one of the two lists.
\<close>

theorem C1_partition_counts:
  "length (scoreIDs (ParseImportInfo importInfo)) + length (errors (ParseImportInfo importInfo))
     = length importInfo"
  by (simp add: ParseImportInfo_scoreIDs ParseImportInfo_errors length_accepted_failures)

text \<open>
  C3. The chart-ID set holds every chart ID of an accepted outcome exactly once, however
  often the chart ID occurs among the accepted outcomes, and holds nothing else.
\<close>

theorem C3_chartIDs_exactly_once:
  "distinct (chartIDs (ParseImportInfo importInfo)) \<and>
   set (chartIDs (ParseImportInfo importInfo)) = chartID ` set (accepted importInfo) \<and>
   count_list (chartIDs (ParseImportInfo importInfo)) c =
     (if c \<in> chartID ` set (accepted importInfo) then 1 else 0)"
proof -
  have d: "distinct (chartIDs (ParseImportInfo importInfo))"
    by (simp add: ParseImportInfo_def loop_chartIDs_distinct)
  have s: "set (chartIDs (ParseImportInfo importInfo)) = chartID ` set (accepted importInfo)"
    by (simp add: ParseImportInfo_def loop_chartIDs_set)
  have "count_list (chartIDs (ParseImportInfo importInfo)) c =
          (if c \<in> set (chartIDs (ParseImportInfo importInfo)) then 1 else 0)"
    using d by (rule count_list_distinct)
  with d s show ?thesis by simp
qed

theorem C3_chartIDs_exactly_once_witness:
  "count_list (chartIDs (ParseImportInfo
      [Success \<lparr>scoreID = ''s1'', chartID = ''c1'', playtype = ''SP''\<rparr>,
       Success \<lparr>scoreID = ''s2'', chartID = ''c1'', playtype = ''DP''\<rparr>,
       Failure ''KTDataNotFound'' ''no chart''])) ''c1'' = 1"
  using C3_chartIDs_exactly_once
    [of "[Success \<lparr>scoreID = ''s1'', chartID = ''c1'', playtype = ''SP''\<rparr>,
          Success \<lparr>scoreID = ''s2'', chartID = ''c1'', playtype = ''DP''\<rparr>,
          Failure ''KTDataNotFound'' ''no chart'']" "''c1''"]
  by simp

text \<open>
  C4. For every playtype, the scores stored under it are the accepted scores of that
  playtype in their input order; a playtype without an accepted score has no entry.
\<close>

theorem C4_groups_stable:
  "obj_get (scorePlaytypeMap (ParseImportInfo importInfo)) pt =
     (if pt \<in> playtype ` set (accepted importInfo)
      then Some (filter (\<lambda>s. playtype s = pt) (accepted importInfo)) else None)"
  by (rule ParseImportInfo_obj_get)

theorem C4_groups_stable_witness:
  "obj_get (scorePlaytypeMap (ParseImportInfo
      [Success \<lparr>scoreID = ''s1'', chartID = ''c1'', playtype = ''SP''\<rparr>,
       Success \<lparr>scoreID = ''s2'', chartID = ''c2'', playtype = ''DP''\<rparr>,
       Failure ''InvalidDatapoint'' ''bad lamp'',
       Success \<lparr>scoreID = ''s3'', chartID = ''c3'', playtype = ''SP''\<rparr>])) ''SP''
   = Some [\<lparr>scoreID = ''s1'', chartID = ''c1'', playtype = ''SP''\<rparr>,
           \<lparr>scoreID = ''s3'', chartID = ''c3'', playtype = ''SP''\<rparr>]"
  using C4_groups_stable
    [of "[Success \<lparr>scoreID = ''s1'', chartID = ''c1'', playtype = ''SP''\<rparr>,
          Success \<lparr>scoreID = ''s2'', chartID = ''c2'', playtype = ''DP''\<rparr>,
          Failure ''InvalidDatapoint'' ''bad lamp'',
          Success \<lparr>scoreID = ''s3'', chartID = ''c3'', playtype = ''SP''\<rparr>]" "''SP''"]
  by simp

text \<open>
  C8. A playtype is a key of the groups map exactly when some accepted score has that
  playtype, and the list stored under a key is never empty.
\<close>

theorem C8_groups_nonempty:
  "(pt \<in> set (Object_keys (scorePlaytypeMap (ParseImportInfo importInfo)))
      \<longleftrightarrow> (\<exists>s \<in> set (accepted importInfo). playtype s = pt)) \<and>
   (pt \<in> set (Object_keys (scorePlaytypeMap (ParseImportInfo importInfo)))
      \<longrightarrow> (\<exists>scores. obj_get (scorePlaytypeMap (ParseImportInfo importInfo)) pt = Some scores
                    \<and> scores \<noteq> []))"
proof -
  have "filter (\<lambda>s. playtype s = pt) (accepted importInfo) \<noteq> []"
    if "pt \<in> playtype ` set (accepted importInfo)"
    using that by (simp add: filter_playtype_Nil_iff)
  then show ?thesis
    by (auto simp: ParseImportInfo_keys_set ParseImportInfo_obj_get)
qed

theorem C8_groups_nonempty_witness:
  "''DP'' \<in> set (Object_keys (scorePlaytypeMap (ParseImportInfo
      [Failure ''InternalError'' ''oops'',
       Success \<lparr>scoreID = ''s7'', chartID = ''c9'', playtype = ''DP''\<rparr>]))) \<and>
   (\<exists>scores. obj_get (scorePlaytypeMap (ParseImportInfo
      [Failure ''InternalError'' ''oops'',
       Success \<lparr>scoreID = ''s7'', chartID = ''c9'', playtype = ''DP''\<rparr>])) ''DP'' = Some scores
      \<and> scores \<noteq> [])"
proof -
  have key: "''DP'' \<in> set (Object_keys (scorePlaytypeMap (ParseImportInfo
      [Failure ''InternalError'' ''oops'',
       Success \<lparr>scoreID = ''s7'', chartID = ''c9'', playtype = ''DP''\<rparr>])))"
    by (simp add: ParseImportInfo_def ParseImportInfo_step_def obj_get_def Object_keys_def)
  with C8_groups_nonempty
    [of "''DP''" "[Failure ''InternalError'' ''oops'',
       Success \<lparr>scoreID = ''s7'', chartID = ''c9'', playtype = ''DP''\<rparr>]"]
  show ?thesis by blast
qed

text \<open>
  C9. The accepted score-ID list is the score IDs of the accepted outcomes in input
  order, and the failures list is the failed outcomes in input order, over the whole
  batch.
\<close>

theorem C9_partition_order:
  "scoreIDs (ParseImportInfo importInfo) = map scoreID (accepted importInfo) \<and>
   errors (ParseImportInfo importInfo) = failures importInfo"
  by (simp add: ParseImportInfo_scoreIDs ParseImportInfo_errors)

section \<open>The orchestrator\<close>

subsection \<open>One step of the chain\<close>

lemma bind_io_call:
  "bind_io (call c r) f w =
     (case r of Inl e \<Rightarrow> (Inl e, w\<lparr>calls := calls w @ [c]\<rparr>)
              | Inr x \<Rightarrow> f x (w\<lparr>calls := calls w @ [c]\<rparr>))"
  by (simp add: bind_io_def call_def split: sum.splits)

lemma bind_io_logger_debug:
  "bind_io (logger_debug msg) f w = f () (w\<lparr>logged := logged w @ [(debug, msg)]\<rparr>)"
  by (simp add: bind_io_def logger_debug_def)

lemma log_import_took_eq:
  "log_import_took n msg w = (Inr (), w\<lparr>logged := logged w @ [(severity_for n, msg)]\<rparr>)"
  by (simp add: log_import_took_def severity_for_def logger_debug_def logger_info_def
      logger_verbose_def)

lemma bind_io_log_import_took:
  "bind_io (log_import_took n msg) f w =
     f () (w\<lparr>logged := logged w @ [(severity_for n, msg)]\<rparr>)"
  by (simp add: bind_io_def log_import_took_eq)

lemma bind_io_await_db_imports_insert:
  "bind_io (await_db_imports_insert M doc) f w =
     (case db_imports_insert M doc of
        Inl e \<Rightarrow> (Inl e, w\<lparr>calls := calls w @ [Call_db_imports_insert]\<rparr>)
      | Inr u \<Rightarrow> f () (w\<lparr>db_imports := db_imports w @ [doc],
                          calls := calls w @ [Call_db_imports_insert]\<rparr>))"
  by (simp add: bind_io_def await_db_imports_insert_def split: sum.splits)

lemma bind_io_start_db_import_timings_insert:
  "bind_io (start_db_import_timings_insert M t) f w =
     f () (case db_import_timings_insert M t of
             Inl e \<Rightarrow> w\<lparr>calls := calls w @ [Call_db_import_timings_insert]\<rparr>
           | Inr u \<Rightarrow> w\<lparr>db_import_timings := db_import_timings w @ [t],
                        calls := calls w @ [Call_db_import_timings_insert]\<rparr>)"
  by (simp add: bind_io_def start_db_import_timings_insert_def split: sum.splits)

subsection \<open>The fan-out of UpdateUsersGameStats\<close>

lemma push_promises_eq:
  "push_promises M g pts uid w =
     (map (\<lambda>pt. UpdateUsersGamePlaytypeStats M g pt uid) pts,
      w\<lparr>calls := calls w @ map Call_UpdateUsersGamePlaytypeStats pts\<rparr>)"
  by (induction pts arbitrary: w) (simp_all add: call_def)

lemma Promise_all_map_Inr: "Promise_all (map Inr vs) = Inr vs"
  by (induction vs) simp_all

lemma Promise_all_InrD: "Promise_all ps = Inr vs \<Longrightarrow> ps = map Inr vs"
  by (induction ps arbitrary: vs rule: Promise_all.induct) (auto split: sum.splits)

lemma Promise_all_Inl_mem: "Promise_all ps = Inl e \<Longrightarrow> Inl e \<in> set ps"
  by (induction ps rule: Promise_all.induct) (auto split: sum.splits)

lemma Promise_all_rejects: "Inl e \<in> set ps \<Longrightarrow> \<exists>e'. Promise_all ps = Inl e'"
  by (induction ps rule: Promise_all.induct) (auto split: sum.splits)

lemma Promise_all_fulfils:
  assumes "\<forall>x \<in> set xs. f x = Inr (r x)"
  shows "Promise_all (map f xs) = Inr (map r xs)"
proof -
  from assms have "map f xs = map Inr (map r xs)" by simp
  then show ?thesis by (simp only: Promise_all_map_Inr)
qed

lemma UpdateUsersGameStats_eq:
  "UpdateUsersGameStats M g pts uid w =
     (case Promise_all (map (\<lambda>pt. UpdateUsersGamePlaytypeStats M g pt uid) pts) of
        Inl e \<Rightarrow> Inl e | Inr r \<Rightarrow> Inr (concat r),
      w\<lparr>calls := calls w @ map Call_UpdateUsersGamePlaytypeStats pts\<rparr>)"
  by (simp add: UpdateUsersGameStats_def push_promises_eq split: sum.splits)

lemma bind_io_UpdateUsersGameStats:
  "bind_io (UpdateUsersGameStats M g pts uid) f w =
     (case Promise_all (map (\<lambda>pt. UpdateUsersGamePlaytypeStats M g pt uid) pts) of
        Inl e \<Rightarrow> (Inl e, w\<lparr>calls := calls w @ map Call_UpdateUsersGamePlaytypeStats pts\<rparr>)
      | Inr r \<Rightarrow>
          f (concat r) (w\<lparr>calls := calls w @ map Call_UpdateUsersGamePlaytypeStats pts\<rparr>))"
  by (simp add: bind_io_def UpdateUsersGameStats_eq split: sum.splits)

lemma count_list_map_Call:
  "count_list (map Call_UpdateUsersGamePlaytypeStats pts)
     (Call_UpdateUsersGamePlaytypeStats pt) = count_list pts pt"
  by (induction pts) simp_all

subsection \<open>A run, stage by stage\<close>

lemmas run_simps = ScoreImportMain_def Let_def bind_io_call bind_io_logger_debug
  bind_io_log_import_took bind_io_UpdateUsersGameStats bind_io_await_db_imports_insert
  bind_io_start_db_import_timings_insert return_io_def

lemma run_parser_fails:
  "fst (ScoreImportMain M clock user ui it (Inl e) w) = Inl e \<and>
   db_imports (snd (ScoreImportMain M clock user ui it (Inl e) w)) = db_imports w"
  by (simp add: run_simps)

lemma run_import_fails:
  assumes "ImportAllIterableData M (id' user) (iterable parsed) (ConverterFunction parsed)
             (context' parsed) = Inl e"
  shows "fst (ScoreImportMain M clock user ui it (Inr parsed) w) = Inl e \<and>
         db_imports (snd (ScoreImportMain M clock user ui it (Inr parsed) w)) = db_imports w"
  using assms by (simp add: run_simps)

lemma run_sessions_fail:
  assumes "ImportAllIterableData M (id' user) (iterable parsed) (ConverterFunction parsed)
             (context' parsed) = Inr importInfo"
    and "CreateSessions M (id' user) it (game parsed)
           (scorePlaytypeMap (ParseImportInfo importInfo)) = Inl e"
  shows "fst (ScoreImportMain M clock user ui it (Inr parsed) w) = Inl e \<and>
         db_imports (snd (ScoreImportMain M clock user ui it (Inr parsed) w)) = db_imports w"
  using assms by (simp add: run_simps)

lemma run_pbs_fail:
  assumes "ImportAllIterableData M (id' user) (iterable parsed) (ConverterFunction parsed)
             (context' parsed) = Inr importInfo"
    and "CreateSessions M (id' user) it (game parsed)
           (scorePlaytypeMap (ParseImportInfo importInfo)) = Inr sessionInfo"
    and "ProcessPBs M (id' user) (chartIDs (ParseImportInfo importInfo)) = Inl e"
  shows "fst (ScoreImportMain M clock user ui it (Inr parsed) w) = Inl e \<and>
         db_imports (snd (ScoreImportMain M clock user ui it (Inr parsed) w)) = db_imports w"
  using assms by (simp add: run_simps)

lemma run_stats_fail:
  assumes "ImportAllIterableData M (id' user) (iterable parsed) (ConverterFunction parsed)
             (context' parsed) = Inr importInfo"
    and "CreateSessions M (id' user) it (game parsed)
           (scorePlaytypeMap (ParseImportInfo importInfo)) = Inr sessionInfo"
    and "ProcessPBs M (id' user) (chartIDs (ParseImportInfo importInfo)) = Inr u"
    and "Promise_all
           (map (\<lambda>pt. UpdateUsersGamePlaytypeStats M (game parsed) pt (id' user))
              (Object_keys (scorePlaytypeMap (ParseImportInfo importInfo)))) = Inl e"
  shows "fst (ScoreImportMain M clock user ui it (Inr parsed) w) = Inl e \<and>
         db_imports (snd (ScoreImportMain M clock user ui it (Inr parsed) w)) = db_imports w"
  using assms by (simp add: run_simps)

lemma run_goals_fail:
  assumes "ImportAllIterableData M (id' user) (iterable parsed) (ConverterFunction parsed)
             (context' parsed) = Inr importInfo"
    and "CreateSessions M (id' user) it (game parsed)
           (scorePlaytypeMap (ParseImportInfo importInfo)) = Inr sessionInfo"
    and "ProcessPBs M (id' user) (chartIDs (ParseImportInfo importInfo)) = Inr u"
    and "Promise_all
           (map (\<lambda>pt. UpdateUsersGamePlaytypeStats M (game parsed) pt (id' user))
              (Object_keys (scorePlaytypeMap (ParseImportInfo importInfo)))) = Inr r"
    and "UpdateUsersGoals M (game parsed) (id' user) (chartIDs (ParseImportInfo importInfo))
           = Inl e"
  shows "fst (ScoreImportMain M clock user ui it (Inr parsed) w) = Inl e \<and>
         db_imports (snd (ScoreImportMain M clock user ui it (Inr parsed) w)) = db_imports w"
  using assms by (simp add: run_simps)

lemma run_milestones_fail:
  assumes "ImportAllIterableData M (id' user) (iterable parsed) (ConverterFunction parsed)
             (context' parsed) = Inr importInfo"
    and "CreateSessions M (id' user) it (game parsed)
           (scorePlaytypeMap (ParseImportInfo importInfo)) = Inr sessionInfo"
    and "ProcessPBs M (id' user) (chartIDs (ParseImportInfo importInfo)) = Inr u"
    and "Promise_all
           (map (\<lambda>pt. UpdateUsersGamePlaytypeStats M (game parsed) pt (id' user))
              (Object_keys (scorePlaytypeMap (ParseImportInfo importInfo)))) = Inr r"
    and "UpdateUsersGoals M (game parsed) (id' user) (chartIDs (ParseImportInfo importInfo))
           = Inr gi"
    and "UpdateUsersMilestones M gi (game parsed)
           (Object_keys (scorePlaytypeMap (ParseImportInfo importInfo))) (id' user) = Inl e"
  shows "fst (ScoreImportMain M clock user ui it (Inr parsed) w) = Inl e \<and>
         db_imports (snd (ScoreImportMain M clock user ui it (Inr parsed) w)) = db_imports w"
  using assms by (simp add: run_simps)

text \<open>
  When every stage succeeds the run reaches the finalisation: the document is built, the
  closing line is logged, and the outcome of the run is the outcome of the insert.
\<close>

lemma run_finalises:
  fixes M :: "('d, 'f, 'c, 'a, 's, 'k, 'g, 'm) Modules"
  assumes "ImportAllIterableData M (id' user) (iterable parsed) (ConverterFunction parsed)
             (context' parsed) = Inr importInfo"
    and "CreateSessions M (id' user) it (game parsed)
           (scorePlaytypeMap (ParseImportInfo importInfo)) = Inr sessionInfo"
    and "ProcessPBs M (id' user) (chartIDs (ParseImportInfo importInfo)) = Inr u"
    and "Promise_all
           (map (\<lambda>pt. UpdateUsersGamePlaytypeStats M (game parsed) pt (id' user))
              (Object_keys (scorePlaytypeMap (ParseImportInfo importInfo)))) = Inr r"
    and "UpdateUsersGoals M (game parsed) (id' user) (chartIDs (ParseImportInfo importInfo))
           = Inr gi"
    and "UpdateUsersMilestones M gi (game parsed)
           (Object_keys (scorePlaytypeMap (ParseImportInfo importInfo))) (id' user) = Inr mi"
    and "doc = \<lparr>importType = it,
                idStrings = map (\<lambda>e. game parsed @ '':'' @ e)
                              (Object_keys (scorePlaytypeMap (ParseImportInfo importInfo))),
                ImportDocument.scoreIDs = scoreIDs (ParseImportInfo importInfo),
                ImportDocument.errors = errors (ParseImportInfo importInfo),
                importID = CreateImportLoggerAndID M user it,
                timeFinished = now_timeFinished clock,
                timeStarted = now_timeStarted clock,
                createdSessions = sessionInfo,
                userID = id' user,
                classDeltas = concat r,
                goalInfo = gi,
                milestoneInfo = mi,
                userIntent = ui\<rparr>"
  shows "fst (ScoreImportMain M clock user ui it (Inr parsed) w) =
           (case db_imports_insert M doc of Inl e \<Rightarrow> Inl e | Inr u' \<Rightarrow> Inr doc)"
    and "db_imports (snd (ScoreImportMain M clock user ui it (Inr parsed) w)) =
           db_imports w @ (case db_imports_insert M doc of Inl e \<Rightarrow> [] | Inr u' \<Rightarrow> [doc])"
    and "\<exists>msg. last (logged (snd (ScoreImportMain M clock user ui it (Inr parsed) w))) =
           (severity_for (length (ImportDocument.scoreIDs doc)), msg)"
  using assms by (simp_all add: run_simps split: sum.splits)

text \<open>Every run stops at one stage or reaches the finalisation.\<close>

lemma run_cases:
  fixes M :: "('d, 'f, 'c, 'a, 's, 'k, 'g, 'm) Modules"
  obtains
    (parser_fails) e where "P = Inl e"
  | (import_fails) parsed e where "P = Inr parsed"
      "ImportAllIterableData M (id' user) (iterable parsed) (ConverterFunction parsed)
         (context' parsed) = Inl e"
  | (sessions_fail) parsed importInfo e where "P = Inr parsed"
      "ImportAllIterableData M (id' user) (iterable parsed) (ConverterFunction parsed)
         (context' parsed) = Inr importInfo"
      "CreateSessions M (id' user) it (game parsed)
         (scorePlaytypeMap (ParseImportInfo importInfo)) = Inl e"
  | (pbs_fail) parsed importInfo sessionInfo e where "P = Inr parsed"
      "ImportAllIterableData M (id' user) (iterable parsed) (ConverterFunction parsed)
         (context' parsed) = Inr importInfo"
      "CreateSessions M (id' user) it (game parsed)
         (scorePlaytypeMap (ParseImportInfo importInfo)) = Inr sessionInfo"
      "ProcessPBs M (id' user) (chartIDs (ParseImportInfo importInfo)) = Inl e"
  | (stats_fail) parsed importInfo sessionInfo u e where "P = Inr parsed"
      "ImportAllIterableData M (id' user) (iterable parsed) (ConverterFunction parsed)
         (context' parsed) = Inr importInfo"
      "CreateSessions M (id' user) it (game parsed)
         (scorePlaytypeMap (ParseImportInfo importInfo)) = Inr sessionInfo"
      "ProcessPBs M (id' user) (chartIDs (ParseImportInfo importInfo)) = Inr u"
      "Promise_all
         (map (\<lambda>pt. UpdateUsersGamePlaytypeStats M (game parsed) pt (id' user))
            (Object_keys (scorePlaytypeMap (ParseImportInfo importInfo)))) = Inl e"
  | (goals_fail) parsed importInfo sessionInfo u r e where "P = Inr parsed"
      "ImportAllIterableData M (id' user) (iterable parsed) (ConverterFunction parsed)
         (context' parsed) = Inr importInfo"
      "CreateSessions M (id' user) it (game parsed)
         (scorePlaytypeMap (ParseImportInfo importInfo)) = Inr sessionInfo"
      "ProcessPBs M (id' user) (chartIDs (ParseImportInfo importInfo)) = Inr u"
      "Promise_all
         (map (\<lambda>pt. UpdateUsersGamePlaytypeStats M (game parsed) pt (id' user))
            (Object_keys (scorePlaytypeMap (ParseImportInfo importInfo)))) = Inr r"
      "UpdateUsersGoals M (game parsed) (id' user) (chartIDs (ParseImportInfo importInfo))
         = Inl e"
  | (milestones_fail) parsed importInfo sessionInfo u r gi e where "P = Inr parsed"
      "ImportAllIterableData M (id' user) (iterable parsed) (ConverterFunction parsed)
         (context' parsed) = Inr importInfo"
      "CreateSessions M (id' user) it (game parsed)
         (scorePlaytypeMap (ParseImportInfo importInfo)) = Inr sessionInfo"
      "ProcessPBs M (id' user) (chartIDs (ParseImportInfo importInfo)) = Inr u"
      "Promise_all
         (map (\<lambda>pt. UpdateUsersGamePlaytypeStats M (game parsed) pt (id' user))
            (Object_keys (scorePlaytypeMap (ParseImportInfo importInfo)))) = Inr r"
      "UpdateUsersGoals M (game parsed) (id' user) (chartIDs (ParseImportInfo importInfo))
         = Inr gi"
      "UpdateUsersMilestones M gi (game parsed)
         (Object_keys (scorePlaytypeMap (ParseImportInfo importInfo))) (id' user) = Inl e"
  | (finalises) parsed importInfo sessionInfo u r gi mi where "P = Inr parsed"
      "ImportAllIterableData M (id' user) (iterable parsed) (ConverterFunction parsed)
         (context' parsed) = Inr importInfo"
      "CreateSessions M (id' user) it (game parsed)
         (scorePlaytypeMap (ParseImportInfo importInfo)) = Inr sessionInfo"
      "ProcessPBs M (id' user) (chartIDs (ParseImportInfo importInfo)) = Inr u"
      "Promise_all
         (map (\<lambda>pt. UpdateUsersGamePlaytypeStats M (game parsed) pt (id' user))
            (Object_keys (scorePlaytypeMap (ParseImportInfo importInfo)))) = Inr r"
      "UpdateUsersGoals M (game parsed) (id' user) (chartIDs (ParseImportInfo importInfo))
         = Inr gi"
      "UpdateUsersMilestones M gi (game parsed)
         (Object_keys (scorePlaytypeMap (ParseImportInfo importInfo))) (id' user) = Inr mi"
proof (cases P)
  case (Inl e)
  then show ?thesis by (rule parser_fails)
next
  case P: (Inr parsed)
  show ?thesis
  proof (cases "ImportAllIterableData M (id' user) (iterable parsed)
                  (ConverterFunction parsed) (context' parsed)")
    case (Inl e)
    with P show ?thesis by (rule import_fails)
  next
    case IA: (Inr importInfo)
    show ?thesis
    proof (cases "CreateSessions M (id' user) it (game parsed)
                    (scorePlaytypeMap (ParseImportInfo importInfo))")
      case (Inl e)
      with P IA show ?thesis by (rule sessions_fail)
    next
      case CS: (Inr sessionInfo)
      show ?thesis
      proof (cases "ProcessPBs M (id' user) (chartIDs (ParseImportInfo importInfo))")
        case (Inl e)
        with P IA CS show ?thesis by (rule pbs_fail)
      next
        case PB: (Inr u)
        show ?thesis
        proof (cases "Promise_all
                 (map (\<lambda>pt. UpdateUsersGamePlaytypeStats M (game parsed) pt (id' user))
                    (Object_keys (scorePlaytypeMap (ParseImportInfo importInfo))))")
          case (Inl e)
          with P IA CS PB show ?thesis by (rule stats_fail)
        next
          case ST: (Inr r)
          show ?thesis
          proof (cases "UpdateUsersGoals M (game parsed) (id' user)
                          (chartIDs (ParseImportInfo importInfo))")
            case (Inl e)
            with P IA CS PB ST show ?thesis by (rule goals_fail)
          next
            case GO: (Inr gi)
            show ?thesis
            proof (cases "UpdateUsersMilestones M gi (game parsed)
                     (Object_keys (scorePlaytypeMap (ParseImportInfo importInfo))) (id' user)")
              case (Inl e)
              with P IA CS PB ST GO show ?thesis by (rule milestones_fail)
            next
              case (Inr mi)
              with P IA CS PB ST GO show ?thesis by (rule finalises)
            qed
          qed
        qed
      qed
    qed
  qed
qed

text \<open>
  The imports collection after a run is the one before it, with the returned document
  appended when the run returns one.
\<close>

lemma run_persists:
  fixes M :: "('d, 'f, 'c, 'a, 's, 'k, 'g, 'm) Modules"
  shows "db_imports (snd (ScoreImportMain M clock user ui it P w)) =
     db_imports w @ (case fst (ScoreImportMain M clock user ui it P w) of
                       Inl e \<Rightarrow> [] | Inr doc \<Rightarrow> [doc])"
proof (cases rule: run_cases [where P = P and M = M and user = user and it = it])
  case parser_fails
  then show ?thesis using run_parser_fails [of M clock user ui it _ w] by simp
next
  case import_fails
  then show ?thesis
    using run_import_fails [OF import_fails(2), of clock ui it w] by simp
next
  case sessions_fail
  then show ?thesis
    using run_sessions_fail [OF sessions_fail(2-), of clock ui w] by simp
next
  case pbs_fail
  then show ?thesis
    using run_pbs_fail [OF pbs_fail(2-), of clock ui w] by simp
next
  case stats_fail
  then show ?thesis
    using run_stats_fail [OF stats_fail(2-), of clock ui w] by simp
next
  case goals_fail
  then show ?thesis
    using run_goals_fail [OF goals_fail(2-), of clock ui w] by simp
next
  case milestones_fail
  then show ?thesis
    using run_milestones_fail [OF milestones_fail(2-), of clock ui w] by simp
next
  case finalises
  then show ?thesis
    using run_finalises(1,2) [OF finalises(2-) refl, of clock ui w]
    by (simp split: sum.splits)
qed

subsection \<open>Failure of a stage\<close>

lemma stats_rejection:
  assumes "pt \<in> set pts" and "f pt = Inl e"
  shows "\<exists>pt' e'. pt' \<in> set pts \<and> f pt' = Inl e' \<and> Promise_all (map f pts) = Inl e'"
proof -
  from assms have "Inl e \<in> set (map f pts)" by force
  then obtain e' where e': "Promise_all (map f pts) = Inl e'"
    using Promise_all_rejects by blast
  then have "Inl e' \<in> set (map f pts)" by (rule Promise_all_Inl_mem)
  then obtain pt' where "pt' \<in> set pts" "f pt' = Inl e'" by auto
  with e' show ?thesis by blast
qed

text \<open>
  C2, as the code has it. When a call of a stage fails (the parser, the converter loop,
  the session builder, the PB recomputer, a per-playtype stat update, the goal evaluator
  or the milestone evaluator), the run ends with that call's own rejection, passed on
  unchanged, and the imports collection is as it was; the orchestrator attaches no
  stage to the error. A run that returns a document has appended exactly that document
  to the imports collection.
\<close>

theorem C2_stage_failure_aborts:
  fixes M :: "('d, 'f, 'c, 'a, 's, 'k, 'g, 'm) Modules"
    and clock user ui it P w
  defines "run \<equiv> ScoreImportMain M clock user ui it P w"
    and "IA \<equiv> \<lambda>parsed. ImportAllIterableData M (id' user) (iterable parsed)
                 (ConverterFunction parsed) (context' parsed)"
    and "CS \<equiv> \<lambda>parsed importInfo. CreateSessions M (id' user) it (game parsed)
                 (scorePlaytypeMap (ParseImportInfo importInfo))"
    and "PB \<equiv> \<lambda>importInfo. ProcessPBs M (id' user) (chartIDs (ParseImportInfo importInfo))"
    and "playtypes \<equiv> \<lambda>importInfo. Object_keys (scorePlaytypeMap (ParseImportInfo importInfo))"
    and "ST \<equiv> \<lambda>parsed pt. UpdateUsersGamePlaytypeStats M (game parsed) pt (id' user)"
    and "GO \<equiv> \<lambda>parsed importInfo. UpdateUsersGoals M (game parsed) (id' user)
                 (chartIDs (ParseImportInfo importInfo))"
    and "MI \<equiv> \<lambda>parsed importInfo gi. UpdateUsersMilestones M gi (game parsed)
                 (Object_keys (scorePlaytypeMap (ParseImportInfo importInfo))) (id' user)"
  shows
    "db_imports (snd run) =
       db_imports w @ (case fst run of Inl e \<Rightarrow> [] | Inr doc \<Rightarrow> [doc]) \<and>
     (P = Inl e \<longrightarrow> fst run = Inl e) \<and>
     (P = Inr parsed \<and> IA parsed = Inl e \<longrightarrow> fst run = Inl e) \<and>
     (P = Inr parsed \<and> IA parsed = Inr importInfo \<and> CS parsed importInfo = Inl e
        \<longrightarrow> fst run = Inl e) \<and>
     (P = Inr parsed \<and> IA parsed = Inr importInfo \<and> CS parsed importInfo = Inr sessionInfo \<and>
      PB importInfo = Inl e
        \<longrightarrow> fst run = Inl e) \<and>
     (P = Inr parsed \<and> IA parsed = Inr importInfo \<and> CS parsed importInfo = Inr sessionInfo \<and>
      PB importInfo = Inr u \<and> pt \<in> set (playtypes importInfo) \<and> ST parsed pt = Inl e
        \<longrightarrow> (\<exists>pt' e'. pt' \<in> set (playtypes importInfo) \<and> ST parsed pt' = Inl e' \<and>
                     fst run = Inl e')) \<and>
     (P = Inr parsed \<and> IA parsed = Inr importInfo \<and> CS parsed importInfo = Inr sessionInfo \<and>
      PB importInfo = Inr u \<and> (\<forall>pt \<in> set (playtypes importInfo). ST parsed pt = Inr (r pt)) \<and>
      GO parsed importInfo = Inl e
        \<longrightarrow> fst run = Inl e) \<and>
     (P = Inr parsed \<and> IA parsed = Inr importInfo \<and> CS parsed importInfo = Inr sessionInfo \<and>
      PB importInfo = Inr u \<and> (\<forall>pt \<in> set (playtypes importInfo). ST parsed pt = Inr (r pt)) \<and>
      GO parsed importInfo = Inr gi \<and> MI parsed importInfo gi = Inl e
        \<longrightarrow> fst run = Inl e)"
proof -
  note defs = IA_def CS_def PB_def playtypes_def ST_def GO_def MI_def
  have persist: "db_imports (snd run) =
       db_imports w @ (case fst run of Inl e \<Rightarrow> [] | Inr doc \<Rightarrow> [doc])"
    unfolding run_def by (rule run_persists)
  have parser: "fst run = Inl e" if "P = Inl e"
    unfolding run_def that by (rule run_parser_fails [THEN conjunct1])
  have import: "fst run = Inl e" if "P = Inr parsed" "IA parsed = Inl e"
    unfolding run_def that(1)
    by (rule run_import_fails [THEN conjunct1]) (rule that(2) [unfolded defs])
  have sessions: "fst run = Inl e"
    if "P = Inr parsed" "IA parsed = Inr importInfo" "CS parsed importInfo = Inl e"
    unfolding run_def that(1)
    by (rule run_sessions_fail [THEN conjunct1]) (rule that(2-) [unfolded defs])+
  have pbs: "fst run = Inl e"
    if "P = Inr parsed" "IA parsed = Inr importInfo" "CS parsed importInfo = Inr sessionInfo"
      "PB importInfo = Inl e"
    unfolding run_def that(1)
    by (rule run_pbs_fail [THEN conjunct1]) (rule that(2-) [unfolded defs])+
  have stats: "\<exists>pt' e'. pt' \<in> set (playtypes importInfo) \<and> ST parsed pt' = Inl e' \<and>
                 fst run = Inl e'"
    if "P = Inr parsed" "IA parsed = Inr importInfo" "CS parsed importInfo = Inr sessionInfo"
      "PB importInfo = Inr u" "pt \<in> set (playtypes importInfo)" "ST parsed pt = Inl e"
  proof -
    from that(5,6) obtain pt' e' where pt': "pt' \<in> set (playtypes importInfo)"
      and rej: "ST parsed pt' = Inl e'"
      and all: "Promise_all (map (ST parsed) (playtypes importInfo)) = Inl e'"
      using stats_rejection [of pt "playtypes importInfo" "ST parsed" e] by blast
    have "fst run = Inl e'"
      unfolding run_def that(1)
      by (rule run_stats_fail [THEN conjunct1])
         (rule that(2-4) [unfolded defs] all [unfolded defs])+
    with pt' rej show ?thesis by blast
  qed
  have fulfilled: "Promise_all (map (ST parsed) (playtypes importInfo)) =
                     Inr (map r (playtypes importInfo))"
    if "\<forall>pt \<in> set (playtypes importInfo). ST parsed pt = Inr (r pt)"
    using that by (rule Promise_all_fulfils)
  have goals: "fst run = Inl e"
    if "P = Inr parsed" "IA parsed = Inr importInfo" "CS parsed importInfo = Inr sessionInfo"
      "PB importInfo = Inr u" "\<forall>pt \<in> set (playtypes importInfo). ST parsed pt = Inr (r pt)"
      "GO parsed importInfo = Inl e"
    unfolding run_def that(1)
    by (rule run_goals_fail [THEN conjunct1])
       (rule that(2-4,6) [unfolded defs] fulfilled [OF that(5), unfolded defs])+
  have milestones: "fst run = Inl e"
    if "P = Inr parsed" "IA parsed = Inr importInfo" "CS parsed importInfo = Inr sessionInfo"
      "PB importInfo = Inr u" "\<forall>pt \<in> set (playtypes importInfo). ST parsed pt = Inr (r pt)"
      "GO parsed importInfo = Inr gi" "MI parsed importInfo gi = Inl e"
    unfolding run_def that(1)
    by (rule run_milestones_fail [THEN conjunct1])
       (rule that(2-4,6,7) [unfolded defs] fulfilled [OF that(5), unfolded defs])+
  show ?thesis
    using persist parser import sessions pbs stats goals milestones by blast
qed

subsection \<open>Runs of the sample environment\<close>

lemmas sample_simps = sample_modules_def sample_parser_def sample_user_def sample_clock_def
  empty_world_def

lemmas partition_simps = ParseImportInfo_def ParseImportInfo_step_def obj_get_def
  Object_keys_def Set_add_def Set_size_def

theorem C2_stage_failure_aborts_witness:
  "fst (ScoreImportMain (sample_modules []) sample_clock sample_user True ''ir/direct-manual''
          (Inl (Error ''not a score file'')) empty_world) = Inl (Error ''not a score file'') \<and>
   fst (ScoreImportMain (sample_modules [Call_ImportAllIterableData]) sample_clock sample_user
          True ''ir/direct-manual''
          (sample_parser [Success \<lparr>scoreID = ''s1'', chartID = ''c1'', playtype = ''SP''\<rparr>])
          empty_world) = Inl (Error ''connection lost'') \<and>
   fst (ScoreImportMain (sample_modules [Call_CreateSessions]) sample_clock sample_user
          True ''ir/direct-manual''
          (sample_parser [Success \<lparr>scoreID = ''s1'', chartID = ''c1'', playtype = ''SP''\<rparr>])
          empty_world) = Inl (Error ''connection lost'') \<and>
   fst (ScoreImportMain (sample_modules [Call_ProcessPBs]) sample_clock sample_user
          True ''ir/direct-manual''
          (sample_parser [Success \<lparr>scoreID = ''s1'', chartID = ''c1'', playtype = ''SP''\<rparr>])
          empty_world) = Inl (Error ''connection lost'') \<and>
   (\<exists>pt' e'. pt' \<in> {''SP'', ''DP''} \<and>
      fst (ScoreImportMain (sample_modules [Call_UpdateUsersGamePlaytypeStats ''DP''])
          sample_clock sample_user True ''ir/direct-manual''
          (sample_parser [Success \<lparr>scoreID = ''s1'', chartID = ''c1'', playtype = ''SP''\<rparr>,
                          Success \<lparr>scoreID = ''s2'', chartID = ''c2'', playtype = ''DP''\<rparr>])
          empty_world) = Inl e') \<and>
   fst (ScoreImportMain (sample_modules [Call_UpdateUsersGoals]) sample_clock sample_user
          True ''ir/direct-manual''
          (sample_parser [Success \<lparr>scoreID = ''s1'', chartID = ''c1'', playtype = ''SP''\<rparr>])
          empty_world) = Inl (Error ''connection lost'') \<and>
   fst (ScoreImportMain (sample_modules [Call_UpdateUsersMilestones]) sample_clock sample_user
          True ''ir/direct-manual''
          (sample_parser [Success \<lparr>scoreID = ''s1'', chartID = ''c1'', playtype = ''SP''\<rparr>])
          empty_world) = Inl (Error ''connection lost'') \<and>
   db_imports (snd (ScoreImportMain (sample_modules [Call_UpdateUsersMilestones]) sample_clock
          sample_user True ''ir/direct-manual''
          (sample_parser [Success \<lparr>scoreID = ''s1'', chartID = ''c1'', playtype = ''SP''\<rparr>])
          empty_world)) = []"
proof -
  let ?b = "[Success \<lparr>scoreID = ''s1'', chartID = ''c1'', playtype = ''SP''\<rparr>]"
  let ?b2 = "[Success \<lparr>scoreID = ''s1'', chartID = ''c1'', playtype = ''SP''\<rparr>,
              Success \<lparr>scoreID = ''s2'', chartID = ''c2'', playtype = ''DP''\<rparr>]"
  let ?p = "\<lparr>iterable = ?b, ConverterFunction = (), context' = (), game = ''iidx''\<rparr>"
  let ?p2 = "\<lparr>iterable = ?b2, ConverterFunction = (), context' = (), game = ''iidx''\<rparr>"
  let ?e = "Error ''connection lost''"
  let ?r = "\<lambda>pt. [''class-'' @ pt]"
  have parser: "fst (ScoreImportMain (sample_modules []) sample_clock sample_user True
          ''ir/direct-manual'' (Inl (Error ''not a score file'')) empty_world)
        = Inl (Error ''not a score file'')"
    using C2_stage_failure_aborts
      [where M = "sample_modules []" and P = "Inl (Error ''not a score file'')"
         and e = "Error ''not a score file''",
       THEN conjunct2, THEN conjunct1]
    by simp
  have import: "fst (ScoreImportMain (sample_modules [Call_ImportAllIterableData])
          sample_clock sample_user True ''ir/direct-manual'' (sample_parser ?b) empty_world)
        = Inl ?e"
    using C2_stage_failure_aborts
      [where M = "sample_modules [Call_ImportAllIterableData]" and P = "sample_parser ?b"
         and parsed = ?p and e = ?e and user = sample_user,
       THEN conjunct2, THEN conjunct2, THEN conjunct1]
    by (simp add: sample_simps)
  have sessions: "fst (ScoreImportMain (sample_modules [Call_CreateSessions])
          sample_clock sample_user True ''ir/direct-manual'' (sample_parser ?b) empty_world)
        = Inl ?e"
    using C2_stage_failure_aborts
      [where M = "sample_modules [Call_CreateSessions]" and P = "sample_parser ?b"
         and parsed = ?p and importInfo = ?b and e = ?e and user = sample_user,
       THEN conjunct2, THEN conjunct2, THEN conjunct2, THEN conjunct1]
    by (simp add: sample_simps)
  have pbs: "fst (ScoreImportMain (sample_modules [Call_ProcessPBs])
          sample_clock sample_user True ''ir/direct-manual'' (sample_parser ?b) empty_world)
        = Inl ?e"
    using C2_stage_failure_aborts
      [where M = "sample_modules [Call_ProcessPBs]" and P = "sample_parser ?b"
         and parsed = ?p and importInfo = ?b and e = ?e and user = sample_user
         and it = "''ir/direct-manual''"
         and sessionInfo = "[''session-SP'']",
       THEN conjunct2, THEN conjunct2, THEN conjunct2, THEN conjunct2, THEN conjunct1]
    by (simp add: sample_simps partition_simps)
  have stats: "\<exists>pt' e'. pt' \<in> {''SP'', ''DP''} \<and>
      fst (ScoreImportMain (sample_modules [Call_UpdateUsersGamePlaytypeStats ''DP''])
          sample_clock sample_user True ''ir/direct-manual'' (sample_parser ?b2) empty_world)
        = Inl e'"
    using C2_stage_failure_aborts
      [where M = "sample_modules [Call_UpdateUsersGamePlaytypeStats ''DP'']"
         and P = "sample_parser ?b2"
         and parsed = ?p2 and importInfo = ?b2 and e = ?e and user = sample_user
         and it = "''ir/direct-manual''" and pt = "''DP''" and u = "()"
         and sessionInfo = "[''session-SP'', ''session-DP'']",
       THEN conjunct2, THEN conjunct2, THEN conjunct2, THEN conjunct2, THEN conjunct2,
       THEN conjunct1]
    by (simp add: sample_simps partition_simps) blast
  have goals: "fst (ScoreImportMain (sample_modules [Call_UpdateUsersGoals])
          sample_clock sample_user True ''ir/direct-manual'' (sample_parser ?b) empty_world)
        = Inl ?e"
    using C2_stage_failure_aborts
      [where M = "sample_modules [Call_UpdateUsersGoals]" and P = "sample_parser ?b"
         and parsed = ?p and importInfo = ?b and e = ?e and user = sample_user
         and it = "''ir/direct-manual''" and u = "()" and r = ?r
         and sessionInfo = "[''session-SP'']",
       THEN conjunct2, THEN conjunct2, THEN conjunct2, THEN conjunct2, THEN conjunct2,
       THEN conjunct2, THEN conjunct1]
    by (simp add: sample_simps partition_simps)
  have milestones: "fst (ScoreImportMain (sample_modules [Call_UpdateUsersMilestones])
          sample_clock sample_user True ''ir/direct-manual'' (sample_parser ?b) empty_world)
        = Inl ?e"
    using C2_stage_failure_aborts
      [where M = "sample_modules [Call_UpdateUsersMilestones]" and P = "sample_parser ?b"
         and parsed = ?p and importInfo = ?b and e = ?e and user = sample_user
         and it = "''ir/direct-manual''" and u = "()" and r = ?r and gi = "''goals''"
         and sessionInfo = "[''session-SP'']",
       THEN conjunct2, THEN conjunct2, THEN conjunct2, THEN conjunct2, THEN conjunct2,
       THEN conjunct2, THEN conjunct2]
    by (simp add: sample_simps partition_simps)
  have untouched: "db_imports (snd (ScoreImportMain (sample_modules [Call_UpdateUsersMilestones])
          sample_clock sample_user True ''ir/direct-manual'' (sample_parser ?b) empty_world))
        = []"
    using C2_stage_failure_aborts
      [where M = "sample_modules [Call_UpdateUsersMilestones]" and P = "sample_parser ?b"
         and user = sample_user and it = "''ir/direct-manual''" and w = empty_world
         and clock = sample_clock and ui = True,
       THEN conjunct1] milestones
    by (simp add: empty_world_def)
  from parser import sessions pbs stats goals milestones untouched show ?thesis
    by (intro conjI)
qed

text \<open>
  C2, as the specification words it, fails: the error the caller receives does not
  tell which stage failed. The session builder fails in one run and the PB recomputer in
  another, with the same rejection; the caller receives the same value from both, though
  the runs stopped at different calls.
\<close>

theorem C2_error_names_no_stage_counterexample:
  "fst (ScoreImportMain (sample_modules [Call_CreateSessions]) sample_clock sample_user True
          ''ir/direct-manual''
          (sample_parser [Success \<lparr>scoreID = ''s1'', chartID = ''c1'', playtype = ''SP''\<rparr>])
          empty_world) = Inl (Error ''connection lost'') \<and>
   calls (snd (ScoreImportMain (sample_modules [Call_CreateSessions]) sample_clock sample_user
          True ''ir/direct-manual''
          (sample_parser [Success \<lparr>scoreID = ''s1'', chartID = ''c1'', playtype = ''SP''\<rparr>])
          empty_world)) = [Call_InputParser, Call_ImportAllIterableData, Call_CreateSessions] \<and>
   fst (ScoreImportMain (sample_modules [Call_ProcessPBs]) sample_clock sample_user True
          ''ir/direct-manual''
          (sample_parser [Success \<lparr>scoreID = ''s1'', chartID = ''c1'', playtype = ''SP''\<rparr>])
          empty_world) = Inl (Error ''connection lost'') \<and>
   calls (snd (ScoreImportMain (sample_modules [Call_ProcessPBs]) sample_clock sample_user
          True ''ir/direct-manual''
          (sample_parser [Success \<lparr>scoreID = ''s1'', chartID = ''c1'', playtype = ''SP''\<rparr>])
          empty_world)) =
     [Call_InputParser, Call_ImportAllIterableData, Call_CreateSessions, Call_ProcessPBs]"
  by (simp add: run_simps sample_simps partition_simps)

subsection \<open>The stat fan-out over the playtypes of a batch\<close>

text \<open>
  C5. Called on the keys of the groups map, the fan-out starts the stat update of every
  playtype that has an accepted score exactly once and of no other. When every update
  fulfils, the result is the concatenation of the per-playtype results, each taken once,
  so its elements are the union of theirs; when an update rejects, the stage rejects
  with the reason of a rejected update and yields no list.
\<close>

theorem C5_stat_fan_out:
  fixes M :: "('d, 'f, 'c, 'a, 's, 'k, 'g, 'm) Modules"
    and importInfo :: "'a ImportProcessingInfo list" and g uid w
  defines "playtypes \<equiv> Object_keys (scorePlaytypeMap (ParseImportInfo importInfo))"
  defines "out \<equiv> UpdateUsersGameStats M g playtypes uid w"
  shows
    "calls (snd out) = calls w @ map Call_UpdateUsersGamePlaytypeStats playtypes \<and>
     distinct playtypes \<and>
     set playtypes = playtype ` set (accepted importInfo) \<and>
     count_list (map Call_UpdateUsersGamePlaytypeStats playtypes)
         (Call_UpdateUsersGamePlaytypeStats pt) =
       (if pt \<in> playtype ` set (accepted importInfo) then 1 else 0) \<and>
     ((\<forall>pt \<in> set playtypes. UpdateUsersGamePlaytypeStats M g pt uid = Inr (r pt)) \<longrightarrow>
        fst out = Inr (concat (map r playtypes)) \<and>
        set (concat (map r playtypes)) =
          (\<Union>pt \<in> playtype ` set (accepted importInfo). set (r pt))) \<and>
     ((\<exists>pt \<in> set playtypes. \<exists>e. UpdateUsersGamePlaytypeStats M g pt uid = Inl e) \<longrightarrow>
        (\<exists>pt \<in> set playtypes. \<exists>e. UpdateUsersGamePlaytypeStats M g pt uid = Inl e \<and>
           fst out = Inl e))"
proof -
  have d: "distinct playtypes"
    unfolding playtypes_def by (rule ParseImportInfo_keys_distinct)
  have s: "set playtypes = playtype ` set (accepted importInfo)"
    unfolding playtypes_def by (rule ParseImportInfo_keys_set)
  have c: "calls (snd out) = calls w @ map Call_UpdateUsersGamePlaytypeStats playtypes"
    unfolding out_def by (simp add: UpdateUsersGameStats_eq)
  have once: "count_list (map Call_UpdateUsersGamePlaytypeStats playtypes)
         (Call_UpdateUsersGamePlaytypeStats pt) =
       (if pt \<in> playtype ` set (accepted importInfo) then 1 else 0)"
    using count_list_distinct [OF d, of pt] by (simp add: count_list_map_Call s)
  have ok: "fst out = Inr (concat (map r playtypes)) \<and>
        set (concat (map r playtypes)) =
          (\<Union>pt \<in> playtype ` set (accepted importInfo). set (r pt))"
    if "\<forall>pt \<in> set playtypes. UpdateUsersGamePlaytypeStats M g pt uid = Inr (r pt)"
  proof -
    have "Promise_all (map (\<lambda>pt. UpdateUsersGamePlaytypeStats M g pt uid) playtypes) =
            Inr (map r playtypes)"
      using that by (rule Promise_all_fulfils)
    then have "fst out = Inr (concat (map r playtypes))"
      unfolding out_def by (simp add: UpdateUsersGameStats_eq)
    moreover have "set (concat (map r playtypes)) = (\<Union>pt \<in> set playtypes. set (r pt))"
      by simp
    ultimately show ?thesis by (simp add: s)
  qed
  have bad: "\<exists>pt \<in> set playtypes. \<exists>e. UpdateUsersGamePlaytypeStats M g pt uid = Inl e \<and>
           fst out = Inl e"
    if "\<exists>pt \<in> set playtypes. \<exists>e. UpdateUsersGamePlaytypeStats M g pt uid = Inl e"
  proof -
    from that obtain pt e where "pt \<in> set playtypes"
      "UpdateUsersGamePlaytypeStats M g pt uid = Inl e" by blast
    then obtain pt' e' where "pt' \<in> set playtypes"
      "UpdateUsersGamePlaytypeStats M g pt' uid = Inl e'"
      "Promise_all (map (\<lambda>pt. UpdateUsersGamePlaytypeStats M g pt uid) playtypes) = Inl e'"
      using stats_rejection
        [of pt playtypes "\<lambda>pt. UpdateUsersGamePlaytypeStats M g pt uid" e] by blast
    moreover from this(3) have "fst out = Inl e'"
      unfolding out_def by (simp add: UpdateUsersGameStats_eq)
    ultimately show ?thesis by blast
  qed
  from c d s once ok bad show ?thesis by blast
qed

theorem C5_stat_fan_out_witness:
  "fst (UpdateUsersGameStats (sample_modules []) ''iidx''
          (Object_keys (scorePlaytypeMap (ParseImportInfo
             [Success \<lparr>scoreID = ''s1'', chartID = ''c1'', playtype = ''SP''\<rparr>,
              Success \<lparr>scoreID = ''s2'', chartID = ''c2'', playtype = ''DP''\<rparr>,
              Success \<lparr>scoreID = ''s3'', chartID = ''c3'', playtype = ''SP''\<rparr>])))
          1 empty_world) = Inr [''class-SP'', ''class-DP''] \<and>
   (\<exists>e. fst (UpdateUsersGameStats (sample_modules [Call_UpdateUsersGamePlaytypeStats ''DP''])
          ''iidx''
          (Object_keys (scorePlaytypeMap (ParseImportInfo
             [Success \<lparr>scoreID = ''s1'', chartID = ''c1'', playtype = ''SP''\<rparr>,
              Success \<lparr>scoreID = ''s2'', chartID = ''c2'', playtype = ''DP''\<rparr>,
              Success \<lparr>scoreID = ''s3'', chartID = ''c3'', playtype = ''SP''\<rparr>])))
          1 empty_world) = Inl e)"
proof -
  let ?b = "[Success \<lparr>scoreID = ''s1'', chartID = ''c1'', playtype = ''SP''\<rparr>,
             Success \<lparr>scoreID = ''s2'', chartID = ''c2'', playtype = ''DP''\<rparr>,
             Success \<lparr>scoreID = ''s3'', chartID = ''c3'', playtype = ''SP''\<rparr>]"
  have keys: "Object_keys (scorePlaytypeMap (ParseImportInfo ?b)) = [''SP'', ''DP'']"
    by (simp add: partition_simps)
  have all: "\<forall>pt \<in> set (Object_keys (scorePlaytypeMap (ParseImportInfo ?b))).
               UpdateUsersGamePlaytypeStats (sample_modules []) ''iidx'' pt 1
                 = Inr ([''class-'' @ pt])"
    by (simp add: sample_modules_def)
  have one: "\<exists>pt \<in> set (Object_keys (scorePlaytypeMap (ParseImportInfo ?b))). \<exists>e.
               UpdateUsersGamePlaytypeStats
                 (sample_modules [Call_UpdateUsersGamePlaytypeStats ''DP'']) ''iidx'' pt 1
                 = Inl e"
    unfolding keys by (simp add: sample_modules_def)
  have "fst (UpdateUsersGameStats (sample_modules []) ''iidx''
          (Object_keys (scorePlaytypeMap (ParseImportInfo ?b))) 1 empty_world)
        = Inr (concat (map (\<lambda>pt. [''class-'' @ pt])
                  (Object_keys (scorePlaytypeMap (ParseImportInfo ?b)))))"
    using C5_stat_fan_out
      [where M = "sample_modules []" and importInfo = ?b and g = "''iidx''" and uid = 1
         and w = empty_world and r = "\<lambda>pt. [''class-'' @ pt]"] all
    by blast
  then have a: "fst (UpdateUsersGameStats (sample_modules []) ''iidx''
          (Object_keys (scorePlaytypeMap (ParseImportInfo ?b))) 1 empty_world)
        = Inr [''class-SP'', ''class-DP'']"
    by (simp add: keys)
  have b: "\<exists>e. fst (UpdateUsersGameStats
          (sample_modules [Call_UpdateUsersGamePlaytypeStats ''DP'']) ''iidx''
          (Object_keys (scorePlaytypeMap (ParseImportInfo ?b))) 1 empty_world) = Inl e"
    using C5_stat_fan_out
      [where M = "sample_modules [Call_UpdateUsersGamePlaytypeStats ''DP'']"
         and importInfo = ?b and g = "''iidx''" and uid = 1 and w = empty_world] one
    by blast
  from a b show ?thesis by (intro conjI)
qed

subsection \<open>The closing log line\<close>

text \<open>
  C6. The logger method of the closing line depends on the number of accepted scores
  alone: \<open>info\<close> above 500, \<open>verbose\<close> from 2 to 500, \<open>debug\<close> for 1 or 0. So 600
  accepted scores are logged at \<open>info\<close>, 50 at \<open>verbose\<close> and 1 at \<open>debug\<close>, and in
  every run that returns a document the last line logged has the level of the number
  of that document's score IDs.
\<close>

theorem C6_log_severity:
  fixes M :: "('d, 'f, 'c, 'a, 's, 'k, 'g, 'm) Modules"
    and w' :: "('s, 'k, 'g, 'm) World"
  shows
    "log_import_took n msg w' = (Inr (), w'\<lparr>logged := logged w' @ [(severity_for n, msg)]\<rparr>) \<and>
     log_import_took 600 msg w' = logger_info msg w' \<and>
     log_import_took 50 msg w' = logger_verbose msg w' \<and>
     log_import_took 1 msg w' = logger_debug msg w' \<and>
     (fst (ScoreImportMain M clock user ui it P w) = Inr doc \<longrightarrow>
        (\<exists>m. last (logged (snd (ScoreImportMain M clock user ui it P w))) =
                (severity_for (length (ImportDocument.scoreIDs doc)), m)))"
proof -
  have run: "\<exists>m. last (logged (snd (ScoreImportMain M clock user ui it P w))) =
                (severity_for (length (ImportDocument.scoreIDs doc)), m)"
    if ok: "fst (ScoreImportMain M clock user ui it P w) = Inr doc"
  proof (cases rule: run_cases [where P = P and M = M and user = user and it = it])
    case parser_fails
    then show ?thesis using ok run_parser_fails [of M clock user ui it _ w] by simp
  next
    case import_fails
    then show ?thesis
      using ok run_import_fails [OF import_fails(2), of clock ui it w] by simp
  next
    case sessions_fail
    then show ?thesis
      using ok run_sessions_fail [OF sessions_fail(2-), of clock ui w] by simp
  next
    case pbs_fail
    then show ?thesis
      using ok run_pbs_fail [OF pbs_fail(2-), of clock ui w] by simp
  next
    case stats_fail
    then show ?thesis
      using ok run_stats_fail [OF stats_fail(2-), of clock ui w] by simp
  next
    case goals_fail
    then show ?thesis
      using ok run_goals_fail [OF goals_fail(2-), of clock ui w] by simp
  next
    case milestones_fail
    then show ?thesis
      using ok run_milestones_fail [OF milestones_fail(2-), of clock ui w] by simp
  next
    case (finalises parsed importInfo sessionInfo u r gi mi)
    from ok run_finalises(1) [OF finalises(2-) refl, of clock ui w]
    have "doc = \<lparr>importType = it,
                idStrings = map (\<lambda>e. game parsed @ '':'' @ e)
                              (Object_keys (scorePlaytypeMap (ParseImportInfo importInfo))),
                ImportDocument.scoreIDs = scoreIDs (ParseImportInfo importInfo),
                ImportDocument.errors = errors (ParseImportInfo importInfo),
                importID = CreateImportLoggerAndID M user it,
                timeFinished = now_timeFinished clock,
                timeStarted = now_timeStarted clock,
                createdSessions = sessionInfo,
                userID = id' user,
                classDeltas = concat r,
                goalInfo = gi,
                milestoneInfo = mi,
                userIntent = ui\<rparr>"
      unfolding finalises(1) by (simp split: sum.splits)
    from run_finalises(3) [OF finalises(2-) this, of w]
    show ?thesis unfolding finalises(1) .
  qed
  have "log_import_took 600 msg w' = logger_info msg w'"
    and "log_import_took 50 msg w' = logger_verbose msg w'"
    and "log_import_took 1 msg w' = logger_debug msg w'"
    by (simp_all add: log_import_took_def)
  with run show ?thesis
    by (simp add: log_import_took_eq)
qed

theorem C6_log_severity_witness:
  "\<exists>m. last (logged (snd (ScoreImportMain (sample_modules []) sample_clock sample_user True
        ''ir/direct-manual''
        (sample_parser [Success \<lparr>scoreID = ''s1'', chartID = ''c1'', playtype = ''SP''\<rparr>,
                        Failure ''InvalidDatapoint'' ''no lamp'',
                        Success \<lparr>scoreID = ''s2'', chartID = ''c2'', playtype = ''DP''\<rparr>])
        empty_world))) = (verbose, m)"
proof -
  let ?run = "ScoreImportMain (sample_modules []) sample_clock sample_user True
        ''ir/direct-manual''
        (sample_parser [Success \<lparr>scoreID = ''s1'', chartID = ''c1'', playtype = ''SP''\<rparr>,
                        Failure ''InvalidDatapoint'' ''no lamp'',
                        Success \<lparr>scoreID = ''s2'', chartID = ''c2'', playtype = ''DP''\<rparr>])
        empty_world"
  have "\<exists>doc. fst ?run = Inr doc \<and> ImportDocument.scoreIDs doc = [''s1'', ''s2'']"
    by (simp add: run_simps sample_simps partition_simps)
  then obtain doc where ok: "fst ?run = Inr doc"
    and ids: "ImportDocument.scoreIDs doc = [''s1'', ''s2'']" by blast
  from C6_log_severity
    [THEN conjunct2, THEN conjunct2, THEN conjunct2, THEN conjunct2, rule_format, OF ok]
  show ?thesis by (simp add: ids severity_for_def)
qed

subsection \<open>The empty batch\<close>

text \<open>
  C10. When the converter loop yields no outcome, and the other modules do their work on
  the empty inputs (the session builder making no session), the run completes: it
  returns a document with no score IDs, no errors, no ID strings and no sessions, and
  that document is appended to the imports collection. The per-item timings are
  quotients by a zero count; they are computed, logged and (when the timing insert
  succeeds) written without ending the run.
\<close>

theorem C10_empty_batch_completes:
  fixes M :: "('d, 'f, 'c, 'a, 's, 'k, 'g, 'm) Modules"
  assumes "ImportAllIterableData M (id' user) (iterable parsed) (ConverterFunction parsed)
             (context' parsed) = Inr []"
    and "CreateSessions M (id' user) it (game parsed) [] = Inr []"
    and "ProcessPBs M (id' user) [] = Inr u"
    and "UpdateUsersGoals M (game parsed) (id' user) [] = Inr gi"
    and "UpdateUsersMilestones M gi (game parsed) [] (id' user) = Inr mi"
    and "\<forall>doc. db_imports_insert M doc = Inr ()"
  shows "\<exists>doc. fst (ScoreImportMain M clock user ui it (Inr parsed) w) = Inr doc \<and>
           db_imports (snd (ScoreImportMain M clock user ui it (Inr parsed) w)) =
             db_imports w @ [doc] \<and>
           ImportDocument.scoreIDs doc = [] \<and> ImportDocument.errors doc = [] \<and>
           idStrings doc = [] \<and> createdSessions doc = [] \<and>
           (debug, Importing_took (since_import clock) (js_div (since_import clock) 0))
             \<in> set (logged (snd (ScoreImportMain M clock user ui it (Inr parsed) w))) \<and>
           (debug, Session_Processing_took (since_session clock)
                     (js_div (since_session clock) 0))
             \<in> set (logged (snd (ScoreImportMain M clock user ui it (Inr parsed) w))) \<and>
           (debug, PB_Processing_took (since_pb clock) (js_div (since_pb clock) 0))
             \<in> set (logged (snd (ScoreImportMain M clock user ui it (Inr parsed) w))) \<and>
           ((\<forall>t. db_import_timings_insert M t = Inr ()) \<longrightarrow>
              (\<exists>t. db_import_timings (snd (ScoreImportMain M clock user ui it (Inr parsed) w))
                     = db_import_timings w @ [t] \<and>
                   rel t = \<lparr>rel_import = js_div (since_import clock) 0,
                            rel_importParse = js_div (since_importParse clock) 0,
                            rel_pb = js_div (since_pb clock) 0,
                            rel_session = js_div (since_session clock) 0\<rparr>))"
proof -
  have empty: "ParseImportInfo ([] :: 'a ImportProcessingInfo list) =
                 \<lparr>scoreIDs = [], errors = [], scorePlaytypeMap = [], chartIDs = []\<rparr>"
    by (simp add: ParseImportInfo_def)
  show ?thesis
    using assms
    by (simp add: run_simps empty Object_keys_def Set_size_def split: sum.splits)
qed

theorem C10_empty_batch_completes_witness:
  "\<exists>doc. fst (ScoreImportMain (sample_modules []) sample_clock sample_user False
             ''file/batch-manual'' (sample_parser []) empty_world) = Inr doc \<and>
     db_imports (snd (ScoreImportMain (sample_modules []) sample_clock sample_user False
             ''file/batch-manual'' (sample_parser []) empty_world)) = [doc] \<and>
     ImportDocument.scoreIDs doc = [] \<and> createdSessions doc = [] \<and>
     map rel (db_import_timings (snd (ScoreImportMain (sample_modules []) sample_clock
             sample_user False ''file/batch-manual'' (sample_parser []) empty_world))) =
       [\<lparr>rel_import = PosInfinity, rel_importParse = PosInfinity, rel_pb = PosInfinity,
         rel_session = PosInfinity\<rparr>]"
proof -
  have run: "\<exists>doc. fst (ScoreImportMain (sample_modules []) sample_clock sample_user False
             ''file/batch-manual'' (sample_parser []) empty_world) = Inr doc \<and>
     db_imports (snd (ScoreImportMain (sample_modules []) sample_clock sample_user False
             ''file/batch-manual'' (sample_parser []) empty_world)) = db_imports empty_world @ [doc] \<and>
     ImportDocument.scoreIDs doc = [] \<and> ImportDocument.errors doc = [] \<and>
     idStrings doc = [] \<and> createdSessions doc = [] \<and>
     (debug, Importing_took (since_import sample_clock) (js_div (since_import sample_clock) 0))
       \<in> set (logged (snd (ScoreImportMain (sample_modules []) sample_clock sample_user False
             ''file/batch-manual'' (sample_parser []) empty_world))) \<and>
     (debug, Session_Processing_took (since_session sample_clock)
               (js_div (since_session sample_clock) 0))
       \<in> set (logged (snd (ScoreImportMain (sample_modules []) sample_clock sample_user False
             ''file/batch-manual'' (sample_parser []) empty_world))) \<and>
     (debug, PB_Processing_took (since_pb sample_clock) (js_div (since_pb sample_clock) 0))
       \<in> set (logged (snd (ScoreImportMain (sample_modules []) sample_clock sample_user False
             ''file/batch-manual'' (sample_parser []) empty_world))) \<and>
     ((\<forall>t. db_import_timings_insert (sample_modules []) t = Inr ()) \<longrightarrow>
        (\<exists>t. db_import_timings (snd (ScoreImportMain (sample_modules []) sample_clock
             sample_user False ''file/batch-manual'' (sample_parser []) empty_world))
               = db_import_timings empty_world @ [t] \<and>
             rel t = \<lparr>rel_import = js_div (since_import sample_clock) 0,
                      rel_importParse = js_div (since_importParse sample_clock) 0,
                      rel_pb = js_div (since_pb sample_clock) 0,
                      rel_session = js_div (since_session sample_clock) 0\<rparr>))"
    unfolding sample_parser_def
    by (rule C10_empty_batch_completes [where u = "()" and gi = "''goals''"
          and mi = "''milestones''"])
       (simp_all add: sample_modules_def)
  have "\<forall>t. db_import_timings_insert (sample_modules []) t = Inr ()"
    by (simp add: sample_modules_def)
  with run show ?thesis
    by (auto simp: empty_world_def sample_clock_def)
qed

subsection \<open>The recorded times\<close>

lemma js_ge0_js_div:
  "js_ge0 x \<Longrightarrow> js_ge0 (js_div x n) = (\<not> (n = 0 \<and> x = Num 0))"
  by (cases x) (auto simp: zero_le_divide_iff)

text \<open>The timing document of a run that reaches the finalisation and inserts.\<close>

lemma run_timings:
  fixes M :: "('d, 'f, 'c, 'a, 's, 'k, 'g, 'm) Modules"
  assumes "ImportAllIterableData M (id' user) (iterable parsed) (ConverterFunction parsed)
             (context' parsed) = Inr importInfo"
    and "CreateSessions M (id' user) it (game parsed)
           (scorePlaytypeMap (ParseImportInfo importInfo)) = Inr sessionInfo"
    and "ProcessPBs M (id' user) (chartIDs (ParseImportInfo importInfo)) = Inr u"
    and "Promise_all
           (map (\<lambda>pt. UpdateUsersGamePlaytypeStats M (game parsed) pt (id' user))
              (Object_keys (scorePlaytypeMap (ParseImportInfo importInfo)))) = Inr r"
    and "UpdateUsersGoals M (game parsed) (id' user) (chartIDs (ParseImportInfo importInfo))
           = Inr gi"
    and "UpdateUsersMilestones M gi (game parsed)
           (Object_keys (scorePlaytypeMap (ParseImportInfo importInfo))) (id' user) = Inr mi"
    and "fst (ScoreImportMain M clock user ui it (Inr parsed) w) = Inr doc"
    and "t = \<lparr>timings_importID = CreateImportLoggerAndID M user it,
              timestamp = now_timestamp clock,
              total = now_timeFinished clock - now_timeStarted clock,
              rel = \<lparr>rel_import = js_div (since_import clock) (length importInfo),
                     rel_importParse = js_div (since_importParse clock) (length importInfo),
                     rel_pb = js_div (since_pb clock)
                                (Set_size (chartIDs (ParseImportInfo importInfo))),
                     rel_session = js_div (since_session clock) (length sessionInfo)\<rparr>,
              abs_timings = \<lparr>abs_parse = since_parse clock,
                             abs_import = since_import clock,
                             abs_importParse = since_importParse clock,
                             abs_session = since_session clock,
                             abs_pb = since_pb clock,
                             abs_ugs = since_ugs clock,
                             abs_goal = since_goal clock,
                             abs_milestone = since_milestone clock\<rparr>\<rparr>"
  shows "db_import_timings (snd (ScoreImportMain M clock user ui it (Inr parsed) w)) =
           db_import_timings w @
             (case db_import_timings_insert M t of Inl e \<Rightarrow> [] | Inr u' \<Rightarrow> [t])"
    and "timeStarted doc = now_timeStarted clock"
    and "timeFinished doc = now_timeFinished clock"
    and "createdSessions doc = sessionInfo"
  using assms by (auto simp add: run_simps split: sum.splits)

text \<open>A run that returns a document has passed every stage.\<close>

lemma run_returns:
  fixes M :: "('d, 'f, 'c, 'a, 's, 'k, 'g, 'm) Modules"
  assumes ok: "fst (ScoreImportMain M clock user ui it (Inr parsed) w) = Inr doc"
    and IA: "ImportAllIterableData M (id' user) (iterable parsed) (ConverterFunction parsed)
               (context' parsed) = Inr importInfo"
  shows "\<exists>sessionInfo u r gi mi.
      CreateSessions M (id' user) it (game parsed)
         (scorePlaytypeMap (ParseImportInfo importInfo)) = Inr sessionInfo \<and>
      ProcessPBs M (id' user) (chartIDs (ParseImportInfo importInfo)) = Inr u \<and>
      Promise_all
         (map (\<lambda>pt. UpdateUsersGamePlaytypeStats M (game parsed) pt (id' user))
            (Object_keys (scorePlaytypeMap (ParseImportInfo importInfo)))) = Inr r \<and>
      UpdateUsersGoals M (game parsed) (id' user) (chartIDs (ParseImportInfo importInfo))
         = Inr gi \<and>
      UpdateUsersMilestones M gi (game parsed)
         (Object_keys (scorePlaytypeMap (ParseImportInfo importInfo))) (id' user) = Inr mi"
proof (cases rule: run_cases
    [where P = "Inr parsed :: error + ('d, 'f, 'c) ParserOutput" and M = M and user = user
       and it = it])
  case (parser_fails e)
  then show ?thesis by simp
next
  case (import_fails p e)
  with IA show ?thesis by simp
next
  case (sessions_fail p ii e)
  with IA have "p = parsed" "ii = importInfo" by simp_all
  with sessions_fail(3) run_sessions_fail [OF IA, of it _ clock ui w] ok
  show ?thesis by simp
next
  case (pbs_fail p ii sessionInfo e)
  with IA have eq: "p = parsed" "ii = importInfo" by simp_all
  from run_pbs_fail [OF pbs_fail(2-), of clock ui w] ok
  show ?thesis unfolding eq by simp
next
  case (stats_fail p ii sessionInfo u e)
  with IA have eq: "p = parsed" "ii = importInfo" by simp_all
  from run_stats_fail [OF stats_fail(2-), of clock ui w] ok
  show ?thesis unfolding eq by simp
next
  case (goals_fail p ii sessionInfo u r e)
  with IA have eq: "p = parsed" "ii = importInfo" by simp_all
  from run_goals_fail [OF goals_fail(2-), of clock ui w] ok
  show ?thesis unfolding eq by simp
next
  case (milestones_fail p ii sessionInfo u r gi e)
  with IA have eq: "p = parsed" "ii = importInfo" by simp_all
  from run_milestones_fail [OF milestones_fail(2-), of clock ui w] ok
  show ?thesis unfolding eq by simp
next
  case (finalises p ii sessionInfo u r gi mi)
  with IA have eq: "p = parsed" "ii = importInfo" by simp_all
  from finalises(3-) show ?thesis unfolding eq by blast
qed

text \<open>
  C7, as the code has it. \<^verbatim>\<open>timeStarted\<close> and \<^verbatim>\<open>timeFinished\<close> are two readings of
  the wall clock with nothing between them that orders them, and a per-item time is a
  reading divided by a count that may be zero. So, for every batch: in a run that
  returns a document, where the wall clock did not step back between the two readings
  and every reading of \<^verbatim>\<open>GetMilisecondsSince\<close> is at least 0, the document has
  \<open>timeFinished \<ge> timeStarted\<close>, the total and every absolute time of the timing
  document are at least 0, and a per-item time is at least 0 unless it is a zero reading
  over a zero count, which is \<^verbatim>\<open>NaN\<close>.
\<close>

theorem C7_recorded_times:
  fixes M :: "('d, 'f, 'c, 'a, 's, 'k, 'g, 'm) Modules"
  assumes "fst (ScoreImportMain M clock user ui it (Inr parsed) w) = Inr doc"
    and "ImportAllIterableData M (id' user) (iterable parsed) (ConverterFunction parsed)
           (context' parsed) = Inr importInfo"
    and "now_timeStarted clock \<le> now_timeFinished clock"
    and "readings_ge0 clock"
  shows "timeStarted doc \<le> timeFinished doc \<and>
    (\<exists>t. db_import_timings (snd (ScoreImportMain M clock user ui it (Inr parsed) w)) =
            db_import_timings w @
              (case db_import_timings_insert M t of Inl e \<Rightarrow> [] | Inr u \<Rightarrow> [t]) \<and>
         0 \<le> total t \<and>
         js_ge0 (abs_parse (abs_timings t)) \<and> js_ge0 (abs_import (abs_timings t)) \<and>
         js_ge0 (abs_importParse (abs_timings t)) \<and> js_ge0 (abs_session (abs_timings t)) \<and>
         js_ge0 (abs_pb (abs_timings t)) \<and> js_ge0 (abs_ugs (abs_timings t)) \<and>
         js_ge0 (abs_goal (abs_timings t)) \<and> js_ge0 (abs_milestone (abs_timings t)) \<and>
         js_ge0 (rel_import (rel t)) =
           (\<not> (importInfo = [] \<and> since_import clock = Num 0)) \<and>
         js_ge0 (rel_importParse (rel t)) =
           (\<not> (importInfo = [] \<and> since_importParse clock = Num 0)) \<and>
         js_ge0 (rel_pb (rel t)) =
           (\<not> (chartIDs (ParseImportInfo importInfo) = [] \<and> since_pb clock = Num 0)) \<and>
         js_ge0 (rel_session (rel t)) =
           (\<not> (createdSessions doc = [] \<and> since_session clock = Num 0)))"
proof -
  from assms(1,2) obtain sessionInfo u r gi mi where stages:
      "CreateSessions M (id' user) it (game parsed)
         (scorePlaytypeMap (ParseImportInfo importInfo)) = Inr sessionInfo"
      "ProcessPBs M (id' user) (chartIDs (ParseImportInfo importInfo)) = Inr u"
      "Promise_all
         (map (\<lambda>pt. UpdateUsersGamePlaytypeStats M (game parsed) pt (id' user))
            (Object_keys (scorePlaytypeMap (ParseImportInfo importInfo)))) = Inr r"
      "UpdateUsersGoals M (game parsed) (id' user) (chartIDs (ParseImportInfo importInfo))
         = Inr gi"
      "UpdateUsersMilestones M gi (game parsed)
         (Object_keys (scorePlaytypeMap (ParseImportInfo importInfo))) (id' user) = Inr mi"
    using run_returns by blast
  define t where "t = \<lparr>timings_importID = CreateImportLoggerAndID M user it,
              timestamp = now_timestamp clock,
              total = now_timeFinished clock - now_timeStarted clock,
              rel = \<lparr>rel_import = js_div (since_import clock) (length importInfo),
                     rel_importParse = js_div (since_importParse clock) (length importInfo),
                     rel_pb = js_div (since_pb clock)
                                (Set_size (chartIDs (ParseImportInfo importInfo))),
                     rel_session = js_div (since_session clock) (length sessionInfo)\<rparr>,
              abs_timings = \<lparr>abs_parse = since_parse clock,
                             abs_import = since_import clock,
                             abs_importParse = since_importParse clock,
                             abs_session = since_session clock,
                             abs_pb = since_pb clock,
                             abs_ugs = since_ugs clock,
                             abs_goal = since_goal clock,
                             abs_milestone = since_milestone clock\<rparr>\<rparr>"
  note run = run_timings [OF assms(2) stages assms(1) t_def]
  have ordered: "timeStarted doc \<le> timeFinished doc"
    using assms(3) by (simp add: run(2,3))
  have total: "0 \<le> total t"
    using assms(3) by (simp add: t_def)
  have abs: "js_ge0 (abs_parse (abs_timings t))" "js_ge0 (abs_import (abs_timings t))"
    "js_ge0 (abs_importParse (abs_timings t))" "js_ge0 (abs_session (abs_timings t))"
    "js_ge0 (abs_pb (abs_timings t))" "js_ge0 (abs_ugs (abs_timings t))"
    "js_ge0 (abs_goal (abs_timings t))" "js_ge0 (abs_milestone (abs_timings t))"
    using assms(4) by (simp_all add: t_def readings_ge0_def)
  have rel: "js_ge0 (rel_import (rel t)) =
           (\<not> (importInfo = [] \<and> since_import clock = Num 0))"
    "js_ge0 (rel_importParse (rel t)) =
           (\<not> (importInfo = [] \<and> since_importParse clock = Num 0))"
    "js_ge0 (rel_pb (rel t)) =
           (\<not> (chartIDs (ParseImportInfo importInfo) = [] \<and> since_pb clock = Num 0))"
    "js_ge0 (rel_session (rel t)) =
           (\<not> (createdSessions doc = [] \<and> since_session clock = Num 0))"
    using assms(4)
    by (simp_all add: t_def readings_ge0_def js_ge0_js_div Set_size_def run(4))
  from ordered run(1) total abs rel show ?thesis by blast
qed

theorem C7_recorded_times_witness:
  "\<exists>doc t. fst (ScoreImportMain (sample_modules []) sample_clock sample_user True
        ''ir/direct-manual''
        (sample_parser [Success \<lparr>scoreID = ''s1'', chartID = ''c1'', playtype = ''SP''\<rparr>,
                        Failure ''InvalidDatapoint'' ''no lamp''])
        empty_world) = Inr doc \<and>
     timeStarted doc \<le> timeFinished doc \<and>
     db_import_timings (snd (ScoreImportMain (sample_modules []) sample_clock sample_user True
        ''ir/direct-manual''
        (sample_parser [Success \<lparr>scoreID = ''s1'', chartID = ''c1'', playtype = ''SP''\<rparr>,
                        Failure ''InvalidDatapoint'' ''no lamp''])
        empty_world)) = [t] \<and>
     0 \<le> total t \<and> js_ge0 (abs_import (abs_timings t)) \<and> js_ge0 (rel_import (rel t)) \<and>
     js_ge0 (rel_pb (rel t)) \<and> js_ge0 (rel_session (rel t))"
proof -
  let ?b = "[Success \<lparr>scoreID = ''s1'', chartID = ''c1'', playtype = ''SP''\<rparr>,
             Failure ''InvalidDatapoint'' ''no lamp'']"
  let ?p = "\<lparr>iterable = ?b, ConverterFunction = (), context' = (), game = ''iidx''\<rparr>"
  let ?run = "ScoreImportMain (sample_modules []) sample_clock sample_user True
        ''ir/direct-manual'' (Inr ?p) empty_world"
  have "\<exists>doc. fst ?run = Inr doc \<and> createdSessions doc = [''session-SP'']"
    by (simp add: run_simps sample_simps partition_simps)
  then obtain doc where ok: "fst ?run = Inr doc"
    and sessions: "createdSessions doc = [''session-SP'']" by blast
  have IA: "ImportAllIterableData (sample_modules []) (id' sample_user) (iterable ?p)
              (ConverterFunction ?p) (context' ?p) = Inr ?b"
    by (simp add: sample_modules_def)
  have wall: "now_timeStarted sample_clock \<le> now_timeFinished sample_clock"
    by (simp add: sample_clock_def)
  have ge0: "readings_ge0 sample_clock"
    by (simp add: sample_clock_def readings_ge0_def)
  have ins: "db_import_timings_insert (sample_modules []) t = Inr ()" for t
    by (simp add: sample_modules_def)
  have charts: "chartIDs (ParseImportInfo ?b) = [''c1'']"
    by (simp add: partition_simps)
  have ew: "db_import_timings empty_world = []"
    by (simp add: empty_world_def)
  have sp: "sample_parser ?b = Inr ?p"
    by (simp add: sample_parser_def)
  from C7_recorded_times [OF ok IA wall ge0]
  obtain t where "timeStarted doc \<le> timeFinished doc"
    and "db_import_timings (snd ?run) = [t]" and "0 \<le> total t"
    and "js_ge0 (abs_import (abs_timings t))" and "js_ge0 (rel_import (rel t))"
    and "js_ge0 (rel_pb (rel t))" and "js_ge0 (rel_session (rel t))"
    by (auto simp: ins sessions charts ew)
  with ok show ?thesis unfolding sp by blast
qed

text \<open>
  C7, as the specification words it, fails in both halves. When the wall clock steps
  back during the import, the persisted document has \<open>timeFinished < timeStarted\<close>; and
  on an empty batch a stage that took no measurable time has the per-item time
  \<^verbatim>\<open>0 / 0\<close>, which is \<^verbatim>\<open>NaN\<close> and not at least 0.
\<close>

theorem C7_times_not_ordered_counterexample:
  "(\<exists>doc. fst (ScoreImportMain (sample_modules []) (sample_clock\<lparr>now_timeFinished := 900\<rparr>)
             sample_user True ''ir/direct-manual''
             (sample_parser [Success \<lparr>scoreID = ''s1'', chartID = ''c1'', playtype = ''SP''\<rparr>])
             empty_world) = Inr doc \<and>
      db_imports (snd (ScoreImportMain (sample_modules [])
             (sample_clock\<lparr>now_timeFinished := 900\<rparr>)
             sample_user True ''ir/direct-manual''
             (sample_parser [Success \<lparr>scoreID = ''s1'', chartID = ''c1'', playtype = ''SP''\<rparr>])
             empty_world)) = [doc] \<and>
      timeStarted doc = 1000 \<and> timeFinished doc = 900 \<and>
      \<not> timeStarted doc \<le> timeFinished doc) \<and>
   (\<exists>t. db_import_timings (snd (ScoreImportMain (sample_modules [])
             (sample_clock\<lparr>since_import := Num 0\<rparr>)
             sample_user True ''ir/direct-manual'' (sample_parser []) empty_world)) = [t] \<and>
      rel_import (rel t) = NaN \<and> \<not> js_ge0 (rel_import (rel t)))"
  by (simp add: run_simps sample_simps partition_simps)

end
